theory Spec2Isabelle
  imports Main
begin

section \<open>Exceptions\<close>

text \<open>
  The exceptions the modelled code can raise. A function that may raise returns
  \<open>error + 'a\<close>, with \<open>Inl\<close> for the exception.
\<close>

datatype error = UnavailableStorageError | InvalidStorageError | AttributeError

section \<open>The storage model\<close>

text \<open>
  The device-management library (blivet) is an external collaborator. Only the
  attributes the modules read or assign are modelled. Devices are objects and the
  manual partitioning module compares them with \<open>is\<close>, so a device is a reference
  (a natural number) into the device tree's object table \<open>dt_devices\<close>.
  \<open>dev_disks\<close> holds the names of the device's disks (\<open>d.name for d in device.disks\<close>).
\<close>

record DeviceFormat =
  fmt_type :: "string option"
  fmt_mountable :: bool
  fmt_mountpoint :: "string option"

record StorageDevice =
  dev_path :: string
  dev_protected :: bool
  dev_size :: int
  dev_disks :: "string list"
  dev_format :: DeviceFormat

record DeviceTree =
  dt_devices :: "nat \<Rightarrow> StorageDevice"
  leaves :: "nat list"
  resolve_device :: "string \<Rightarrow> nat option"

record Blivet =
  devicetree :: DeviceTree
  ignored_disks :: "string list"
  exclusive_disks :: "string list"
  protected_devices :: "string list"
  disk_images :: "(string \<times> string) list"

section \<open>The storage module (storage.py)\<close>

text \<open>
  The callbacks connected to the \<open>storage_changed\<close> signal: the \<open>on_storage_reset\<close>
  methods of the sub-modules, and of every partitioning module made by
  \<open>create_partitioning\<close>.
\<close>

datatype PartitioningMethod = AUTOMATIC | MANUAL | CUSTOM | INTERACTIVE | BLIVET

datatype callback =
    DeviceTreeModule_on_storage_reset
  | DiskInitializationModule_on_storage_reset
  | DiskSelectionModule_on_storage_reset
  | SnapshotModule_on_storage_reset
  | BootloaderModule_on_storage_reset
  | PartitioningModule_on_storage_reset PartitioningMethod

text \<open>
  The state of a \<open>StorageModule\<close>. Storage models are mutable objects that the
  module, its tasks and its sub-modules share by reference, so the state carries the
  object store: \<open>objects\<close> maps a reference to the object's current content and
  \<open>next_ref\<close> is the first reference not yet allocated. \<open>storage_field\<close> is
  \<open>self._storage\<close> (\<open>None\<close> until a model exists), \<open>storage_changed\<close> the
  callbacks connected to the signal in connection order, and \<open>delivered\<close> the calls
  the signal has made so far, each with the reference it passed. The four
  \<open>sel_\<close> fields are the properties of \<open>self._disk_selection_module\<close> which
  \<open>reset_with_task\<close> reads.
\<close>

record StorageModule =
  objects :: "nat \<Rightarrow> Blivet"
  next_ref :: nat
  storage_field :: "nat option"
  storage_changed :: "callback list"
  delivered :: "(callback \<times> nat) list"
  sel_ignored_disks :: "string list"
  sel_exclusive_disks :: "string list"
  sel_protected_devices :: "string list"
  sel_disk_images :: "(string \<times> string) list"

text \<open>Creating an object: the next free reference gets the content.\<close>

definition allocate :: "Blivet \<Rightarrow> StorageModule \<Rightarrow> nat \<times> StorageModule" where
  "allocate content self =
     (next_ref self,
      self\<lparr>objects := (objects self)(next_ref self := content),
           next_ref := Suc (next_ref self)\<rparr>)"

text \<open>
  Modelled from the spec: \<open>Signal.emit\<close> of pyanaconda.core.signal, which is not
  among the sources. Section 5: notifications are delivered synchronously, in
  subscriber-registration order, before the triggering call returns.
\<close>

definition emit :: "nat \<Rightarrow> StorageModule \<Rightarrow> StorageModule" where
  "emit storage self =
     self\<lparr>delivered := delivered self @ map (\<lambda>cb. (cb, storage)) (storage_changed self)\<rparr>"

text \<open>\<open>StorageModule.set_storage\<close>, lines 195-199.\<close>

definition set_storage :: "nat \<Rightarrow> StorageModule \<Rightarrow> StorageModule" where
  "set_storage storage self = emit storage (self\<lparr>storage_field := Some storage\<rparr>)"

text \<open>
  \<open>create_storage()\<close> of pyanaconda.storage.initialization builds a new model; its
  content is the parameter \<open>created\<close>.
\<close>

definition create_storage :: "Blivet \<Rightarrow> StorageModule \<Rightarrow> nat \<times> StorageModule" where
  "create_storage created self = allocate created self"

text \<open>
  The property \<open>StorageModule.storage\<close>, lines 184-193. A Blivet object is truthy,
  so \<open>not self._storage\<close> holds exactly when the field is \<open>None\<close>.
\<close>

definition storage :: "Blivet \<Rightarrow> StorageModule \<Rightarrow> nat \<times> StorageModule" where
  "storage created self =
     (case storage_field self of
        None \<Rightarrow>
          (let (new, self1) = create_storage created self;
               self2 = set_storage new self1
           in (new, self2))
      | Some s \<Rightarrow> (s, self))"

text \<open>
  \<open>Blivet.copy()\<close> makes a deep copy: a new object with the content of the old one.
\<close>

definition copy :: "nat \<Rightarrow> StorageModule \<Rightarrow> nat \<times> StorageModule" where
  "copy s self = allocate (objects self s) self"

text \<open>
  A \<open>StorageResetTask\<close> holds the model it will reset; \<open>succeeded_signal\<close> lists the
  callbacks connected to the task's signal. The only callback connected in this
  module is \<open>lambda: self.set_storage(storage)\<close>.
\<close>

datatype task_callback = SetStorage nat

record StorageResetTask =
  task_storage :: nat
  succeeded_signal :: "task_callback list"

text \<open>\<open>StorageModule.reset_with_task\<close>, lines 208-228.\<close>

definition reset_with_task :: "Blivet \<Rightarrow> StorageModule \<Rightarrow> StorageResetTask \<times> StorageModule" where
  "reset_with_task created self =
     (let (current, self1) = storage created self;
          (s, self2) = copy current self1;
          self3 = self2\<lparr>objects := (objects self2)
                    (s := (objects self2 s)
                       \<lparr>ignored_disks := sel_ignored_disks self2,
                        exclusive_disks := sel_exclusive_disks self2,
                        protected_devices := sel_protected_devices self2,
                        disk_images := sel_disk_images self2\<rparr>)\<rparr>;
          task = \<lparr>task_storage = s, succeeded_signal = [SetStorage s]\<rparr>
      in (task, self3))"

fun run_callback :: "task_callback \<Rightarrow> StorageModule \<Rightarrow> StorageModule" where
  "run_callback (SetStorage s) self = set_storage s self"

text \<open>
  Modelled from the spec: running a task, from the \<open>Task\<close> base class of
  pyanaconda.modules.common.task and \<open>StorageResetTask.run\<close>, neither among the
  sources. Section 4.1: a task goes idle, running, then succeeded or failed, and
  mutates the shared model it was constructed with; section 4.4: only on task
  success is the connected swap performed. The parameter \<open>reset\<close> is what the
  task's \<open>run()\<close> does to its model: the content it leaves behind (also when it
  fails half way) and whether it returned without an exception. The result is
  that flag and the state after the signal's callbacks have run.
\<close>

definition run_task ::
  "(Blivet \<Rightarrow> Blivet \<times> bool) \<Rightarrow> StorageResetTask \<Rightarrow> StorageModule \<Rightarrow> bool \<times> StorageModule" where
  "run_task reset task self =
     (let (content, succeeded) = reset (objects self (task_storage task));
          self1 = self\<lparr>objects := (objects self)(task_storage task := content)\<rparr>
      in if succeeded
         then (True, foldl (\<lambda>m cb. run_callback cb m) self1 (succeeded_signal task))
         else (False, self1))"

text \<open>
  Modelled from the spec: the \<open>storage\<close> property of a partitioning module, from
  pyanaconda.modules.storage.partitioning.base, not among the sources. Section 7:
  querying the storage model before it has been initialized raises an
  unavailable-resource error. The argument is what the module holds in its
  \<open>_storage\<close> field.
\<close>

definition module_storage :: "'a option \<Rightarrow> error + 'a" where
  "module_storage held = (case held of None \<Rightarrow> Inl UnavailableStorageError | Some s \<Rightarrow> Inr s)"

text \<open>
  \<open>StorageValidateTask(storage).run()\<close> is not among the sources; by the docstring
  of \<open>apply_partitioning\<close> it raises \<open>InvalidStorageError\<close> when the partitioning
  is not valid. The parameter \<open>valid\<close> is its verdict on a model.
\<close>

definition validate_run :: "(Blivet \<Rightarrow> bool) \<Rightarrow> nat \<Rightarrow> StorageModule \<Rightarrow> error + unit" where
  "validate_run valid s self = (if valid (objects self s) then Inr () else Inl InvalidStorageError)"

text \<open>
  \<open>StorageModule.apply_partitioning\<close>, lines 263-276. An exception leaves the
  state as it was when it was raised.
\<close>

definition apply_partitioning ::
  "(Blivet \<Rightarrow> bool) \<Rightarrow> nat option \<Rightarrow> StorageModule \<Rightarrow> (error + unit) \<times> StorageModule" where
  "apply_partitioning valid module self =
     (case module_storage module of
        Inl e \<Rightarrow> (Inl e, self)
      | Inr s \<Rightarrow>
          (case validate_run valid s self of
             Inl e \<Rightarrow> (Inl e, self)
           | Inr u \<Rightarrow>
               (let (new, self1) = copy s self;
                    self2 = set_storage new self1
                in (Inr (), self2))))"

text \<open>
  The state \<open>StorageModule.__init__\<close> leaves on a machine that is not s390: no
  model yet, and the signal connected first to the five partitioning modules (by
  \<open>create_partitioning\<close>, lines 108-121 and 254-256), then to the five sub-modules
  of lines 124-138. The disk selection starts empty.
\<close>

definition StorageModule_init :: "Blivet \<Rightarrow> StorageModule" where
  "StorageModule_init blank =
     \<lparr>objects = (\<lambda>r. blank), next_ref = 0, storage_field = None,
      storage_changed =
        [PartitioningModule_on_storage_reset AUTOMATIC,
         PartitioningModule_on_storage_reset MANUAL,
         PartitioningModule_on_storage_reset CUSTOM,
         PartitioningModule_on_storage_reset INTERACTIVE,
         PartitioningModule_on_storage_reset BLIVET,
         DeviceTreeModule_on_storage_reset,
         DiskInitializationModule_on_storage_reset,
         DiskSelectionModule_on_storage_reset,
         SnapshotModule_on_storage_reset,
         BootloaderModule_on_storage_reset],
      delivered = [],
      sel_ignored_disks = [], sel_exclusive_disks = [],
      sel_protected_devices = [], sel_disk_images = []\<rparr>"

text \<open>A small model for the examples: an empty device tree and no constraints.\<close>

definition empty_blivet :: Blivet where
  "empty_blivet =
     \<lparr>devicetree = \<lparr>dt_devices = (\<lambda>d. \<lparr>dev_path = [], dev_protected = False, dev_size = 0,
                                       dev_disks = [],
                                       dev_format = \<lparr>fmt_type = None, fmt_mountable = False,
                                                     fmt_mountpoint = None\<rparr>\<rparr>),
                    leaves = [], resolve_device = (\<lambda>spec. None)\<rparr>,
      ignored_disks = [], exclusive_disks = [], protected_devices = [], disk_images = []\<rparr>"

text \<open>
  A module in use: the model has been read once (object 0 is the canonical model)
  and the disk selection module holds two constraints.
\<close>

definition running_module :: StorageModule where
  "running_module =
     (snd (storage empty_blivet (StorageModule_init empty_blivet)))
       \<lparr>sel_ignored_disks := [''sdb''], sel_protected_devices := [''sda1'']\<rparr>"

section \<open>The manual partitioning module (manual.py)\<close>

record MountPointRequest =
  mount_point :: string
  device_spec :: string
  reformat :: bool
  format_type :: string
  format_options :: string
  mount_options :: string

text \<open>One \<open>mount\<close> record of the kickstart data (pykickstart's \<open>MountData\<close>).\<close>

record MountData =
  md_mount_point :: string
  md_device :: string
  md_reformat :: bool
  md_format :: string
  md_mkfs_opts :: string
  md_mount_opts :: string

text \<open>
  The part of the kickstart handler the module touches: \<open>data.mount.seen\<close> and
  \<open>data.mount.mount_points\<close>.
\<close>

record KickstartData =
  mount_seen :: bool
  mount_points :: "MountData list"

datatype signal = requests_changed | enabled_changed

text \<open>
  The state of a \<open>ManualPartitioningModule\<close>, with the objects it works on.
  Requests are objects compared and hashed by identity, and lists and sets are
  mutable objects too, so both live in object stores: \<open>request_objects\<close> maps a
  request reference to its fields, \<open>list_objects\<close> maps the reference of a list
  or of a set to its elements (request references; a set holds each once).
  \<open>requests_field\<close> is \<open>self._requests\<close>, a reference to a list;
  \<open>enabled_field\<close> is \<open>self._enabled\<close>; \<open>selected_disks_field\<close> is
  \<open>self._selected_disks\<close>; \<open>storage_held\<close> is the \<open>_storage\<close> field behind the
  \<open>storage\<close> property, which this module only reads; \<open>emitted\<close> records every
  emission of the module's two signals.
\<close>

record ManualPartitioningModule =
  request_objects :: "nat \<Rightarrow> MountPointRequest"
  next_request :: nat
  list_objects :: "nat \<Rightarrow> nat list"
  next_list :: nat
  enabled_field :: bool
  requests_field :: nat
  selected_disks_field :: "string list"
  storage_held :: "Blivet option"
  emitted :: "signal list"

text \<open>
  Modelled from the spec: the constructor \<open>MountPointRequest()\<close>, from
  pyanaconda.modules.common.structures.partitioning, not among the sources. By the
  scenario of section 8 a request synthesized for an unformatted device has
  \<open>reformat = false\<close> and an empty mount point: the fields start empty and false.
\<close>

definition MountPointRequest_init :: "ManualPartitioningModule \<Rightarrow> nat \<times> ManualPartitioningModule" where
  "MountPointRequest_init self =
     (next_request self,
      self\<lparr>request_objects := (request_objects self)
               (next_request self :=
                  \<lparr>mount_point = [], device_spec = [], reformat = False,
                   format_type = [], format_options = [], mount_options = []\<rparr>),
           next_request := Suc (next_request self)\<rparr>)"

text \<open>\<open>list()\<close>, \<open>[]\<close> and \<open>set(...)\<close>: a new container with the given elements.\<close>

definition new_container :: "nat list \<Rightarrow> ManualPartitioningModule \<Rightarrow> nat \<times> ManualPartitioningModule" where
  "new_container elements self =
     (next_list self,
      self\<lparr>list_objects := (list_objects self)(next_list self := elements),
           next_list := Suc (next_list self)\<rparr>)"

text \<open>
  \<open>lst.append(x)\<close> and \<open>st.remove(x)\<close> change the container in place. The
  module removes from a set only an element it has just found in it.
\<close>

definition list_append :: "nat \<Rightarrow> nat \<Rightarrow> ManualPartitioningModule \<Rightarrow> ManualPartitioningModule" where
  "list_append lst x self = self\<lparr>list_objects := (list_objects self)(lst := list_objects self lst @ [x])\<rparr>"

definition set_remove :: "nat \<Rightarrow> nat \<Rightarrow> ManualPartitioningModule \<Rightarrow> ManualPartitioningModule" where
  "set_remove st x self = self\<lparr>list_objects := (list_objects self)(st := remove1 x (list_objects self st))\<rparr>"

text \<open>\<open>set_enabled\<close>, lines 108-115, and \<open>set_requests\<close>, lines 122-129.\<close>

definition set_enabled :: "bool \<Rightarrow> ManualPartitioningModule \<Rightarrow> ManualPartitioningModule" where
  "set_enabled enabled self =
     self\<lparr>enabled_field := enabled, emitted := emitted self @ [enabled_changed]\<rparr>"

definition set_requests :: "nat \<Rightarrow> ManualPartitioningModule \<Rightarrow> ManualPartitioningModule" where
  "set_requests requests self =
     self\<lparr>requests_field := requests, emitted := emitted self @ [requests_changed]\<rparr>"

text \<open>The loop of \<open>process_kickstart\<close>, lines 71-79.\<close>

fun process_mount_points ::
  "MountData list \<Rightarrow> nat \<Rightarrow> ManualPartitioningModule \<Rightarrow> ManualPartitioningModule" where
  "process_mount_points [] requests self = self"
| "process_mount_points (mount_data # rest) requests self =
     (let (request, self1) = MountPointRequest_init self;
          self2 = self1\<lparr>request_objects := (request_objects self1)
                    (request := (request_objects self1 request)
                       \<lparr>mount_point := md_mount_point mount_data,
                        device_spec := md_device mount_data,
                        reformat := md_reformat mount_data,
                        format_type := md_format mount_data,
                        format_options := md_mkfs_opts mount_data,
                        mount_options := md_mount_opts mount_data\<rparr>)\<rparr>;
          self3 = list_append requests request self2
      in process_mount_points rest requests self3)"

text \<open>\<open>process_kickstart\<close>, lines 62-82.\<close>

definition process_kickstart :: "KickstartData \<Rightarrow> ManualPartitioningModule \<Rightarrow> ManualPartitioningModule" where
  "process_kickstart data self =
     (if \<not> mount_seen data
      then (let (empty, self1) = new_container [] self;
                self2 = set_requests empty self1
            in set_enabled False self2)
      else (let (requests, self1) = new_container [] self;
                self2 = process_mount_points (mount_points data) requests self1;
                self3 = set_requests requests self2
            in set_enabled True self3))"

text \<open>The loop of \<open>setup_kickstart\<close>, lines 91-99.\<close>

fun setup_mount_points ::
  "ManualPartitioningModule \<Rightarrow> nat list \<Rightarrow> MountData list \<Rightarrow> MountData list" where
  "setup_mount_points self [] data_list = data_list"
| "setup_mount_points self (request # rest) data_list =
     (let mount_data =
            \<lparr>md_mount_point = mount_point (request_objects self request),
             md_device = device_spec (request_objects self request),
             md_reformat = reformat (request_objects self request),
             md_format = format_type (request_objects self request),
             md_mkfs_opts = format_options (request_objects self request),
             md_mount_opts = mount_options (request_objects self request)\<rparr>
      in setup_mount_points self rest (data_list @ [mount_data]))"

text \<open>
  \<open>setup_kickstart\<close>, lines 84-101: it changes the handler it is given, which is
  returned here. Only \<open>data.mount.mount_points\<close> is assigned.
\<close>

definition setup_kickstart :: "ManualPartitioningModule \<Rightarrow> KickstartData \<Rightarrow> KickstartData" where
  "setup_kickstart self data =
     (if \<not> enabled_field self then data
      else data\<lparr>mount_points :=
                  setup_mount_points self (list_objects self (requests_field self)) []\<rparr>)"

text \<open>
  \<open>_iterate_usable_devices\<close>, lines 159-175, over the leaves of the device tree.
  The set of selected disks is truthy when it is not empty.
\<close>

fun iterate_usable_devices :: "string list \<Rightarrow> DeviceTree \<Rightarrow> nat list \<Rightarrow> nat list" where
  "iterate_usable_devices selected_disks dt [] = []"
| "iterate_usable_devices selected_disks dt (device # rest) =
     (if dev_protected (dt_devices dt device) \<or> dev_size (dt_devices dt device) = 0
      then iterate_usable_devices selected_disks dt rest
      else if selected_disks \<noteq> [] \<and>
              \<not> set (dev_disks (dt_devices dt device)) \<subseteq> set selected_disks
      then iterate_usable_devices selected_disks dt rest
      else device # iterate_usable_devices selected_disks dt rest)"

text \<open>\<open>_find_request_for_device\<close>, lines 177-188; \<open>requests\<close> is iterated in order.\<close>

fun find_request_for_device ::
  "DeviceTree \<Rightarrow> (nat \<Rightarrow> MountPointRequest) \<Rightarrow> nat \<Rightarrow> nat list \<Rightarrow> nat option" where
  "find_request_for_device dt objs device [] = None"
| "find_request_for_device dt objs device (request # rest) =
     (if resolve_device dt (device_spec (objs request)) = Some device then Some request
      else find_request_for_device dt objs device rest)"

text \<open>
  \<open>_create_request_for_device\<close>, lines 190-204. \<open>device.format.type or ""\<close> is
  the type, or the empty string for \<open>None\<close>; the mount point is assigned only
  when the format is mountable and its mount point is truthy (neither \<open>None\<close>
  nor empty). \<open>created_request\<close> states what the new request holds in the end:
  the device's path, no reformatting, and the type and the mount point of the
  device's current format.
\<close>

definition created_request :: "StorageDevice \<Rightarrow> MountPointRequest" where
  "created_request device =
     \<lparr>mount_point =
        (if fmt_mountable (dev_format device)
         then (case fmt_mountpoint (dev_format device) of None \<Rightarrow> [] | Some m \<Rightarrow> m)
         else []),
      device_spec = dev_path device,
      reformat = False,
      format_type = (case fmt_type (dev_format device) of None \<Rightarrow> [] | Some t \<Rightarrow> t),
      format_options = [],
      mount_options = []\<rparr>"

definition create_request_for_device ::
  "StorageDevice \<Rightarrow> ManualPartitioningModule \<Rightarrow> nat \<times> ManualPartitioningModule" where
  "create_request_for_device device self =
     (let (request, self1) = MountPointRequest_init self;
          self2 = self1\<lparr>request_objects := (request_objects self1)
                    (request := (request_objects self1 request)
                       \<lparr>device_spec := dev_path device,
                        format_type := (case fmt_type (dev_format device) of
                                          None \<Rightarrow> [] | Some t \<Rightarrow> t),
                        reformat := False\<rparr>)\<rparr>;
          self3 = (if fmt_mountable (dev_format device) \<and>
                      (case fmt_mountpoint (dev_format device) of
                         None \<Rightarrow> False | Some m \<Rightarrow> m \<noteq> [])
                   then self2\<lparr>request_objects := (request_objects self2)
                          (request := (request_objects self2 request)
                             \<lparr>mount_point := the (fmt_mountpoint (dev_format device))\<rparr>)\<rparr>
                   else self2)
      in (request, self3))"

text \<open>
  The loop of \<open>gather_requests\<close>, lines 143-155. A request object is truthy, so
  \<open>if request\<close> tests for \<open>None\<close>. Python does not fix the order in which a
  set is iterated: \<open>iteration_order\<close> gives, for the elements a set holds, the
  sequence in which \<open>for request in requests\<close> visits them.
\<close>

fun gather_loop ::
  "(nat list \<Rightarrow> nat list) \<Rightarrow> DeviceTree \<Rightarrow> nat list \<Rightarrow> nat \<Rightarrow> nat
     \<Rightarrow> ManualPartitioningModule \<Rightarrow> ManualPartitioningModule" where
  "gather_loop iteration_order dt [] available_requests requests self = self"
| "gather_loop iteration_order dt (device # rest) available_requests requests self =
     (case find_request_for_device dt (request_objects self) device
             (iteration_order (list_objects self available_requests)) of
        Some request \<Rightarrow>
          (let self1 = set_remove available_requests request self;
               self2 = list_append requests request self1
           in gather_loop iteration_order dt rest available_requests requests self2)
      | None \<Rightarrow>
          (let (request, self1) = create_request_for_device (dt_devices dt device) self;
               self2 = list_append requests request self1
           in gather_loop iteration_order dt rest available_requests requests self2))"

text \<open>
  \<open>gather_requests\<close>, lines 131-157. The result is the reference of the returned
  list. \<open>set(self.requests)\<close> holds every request of the list once. The generator
  \<open>_iterate_usable_devices\<close> starts to run at the first step of the loop, after
  the two containers have been made; that is where the \<open>storage\<close> property is
  read.
\<close>

definition gather_requests ::
  "(nat list \<Rightarrow> nat list) \<Rightarrow> ManualPartitioningModule \<Rightarrow> (error + nat) \<times> ManualPartitioningModule" where
  "gather_requests iteration_order self =
     (let (available_requests, self1) =
            new_container (remdups (list_objects self (requests_field self))) self;
          (requests, self2) = new_container [] self1
      in case module_storage (storage_held self2) of
           Inl e \<Rightarrow> (Inl e, self2)
         | Inr blivet \<Rightarrow>
             (let usable = iterate_usable_devices (selected_disks_field self2)
                             (devicetree blivet) (leaves (devicetree blivet))
              in (Inr requests,
                  gather_loop iteration_order (devicetree blivet) usable available_requests
                    requests self2)))"

text \<open>
  A usable device, in the words of the specification: not protected, of non-zero
  size and, when any disks are selected, with all its disks among the selected
  ones.
\<close>

definition usable_device :: "string list \<Rightarrow> StorageDevice \<Rightarrow> bool" where
  "usable_device selected_disks device \<longleftrightarrow>
     \<not> dev_protected device \<and> dev_size device \<noteq> 0 \<and>
     (selected_disks = [] \<or> set (dev_disks device) \<subseteq> set selected_disks)"

text \<open>The fields of the requests the module holds, in the order of its list.\<close>

definition request_list :: "ManualPartitioningModule \<Rightarrow> MountPointRequest list" where
  "request_list self = map (request_objects self) (list_objects self (requests_field self))"

text \<open>
  The state \<open>ManualPartitioningModule.__init__\<close> leaves: disabled, with an empty
  list of requests (the list object 0), no selected disks and no storage model.
\<close>

definition ManualPartitioningModule_init :: ManualPartitioningModule where
  "ManualPartitioningModule_init =
     \<lparr>request_objects = (\<lambda>r. \<lparr>mount_point = [], device_spec = [], reformat = False,
                               format_type = [], format_options = [], mount_options = []\<rparr>),
      next_request = 0,
      list_objects = (\<lambda>l. []),
      next_list = 1,
      enabled_field = False,
      requests_field = 0,
      selected_disks_field = [],
      storage_held = None,
      emitted = []\<rparr>"

text \<open>
  The scenario of section 8: partitions \<open>sda1\<close>, \<open>sda2\<close> and \<open>sda3\<close> of the disk
  \<open>sda\<close>, the third without a format. The devices are the objects 1, 2 and 3;
  the resolver knows them by name and by path.
\<close>

definition sda_partition :: "string \<Rightarrow> DeviceFormat \<Rightarrow> StorageDevice" where
  "sda_partition path fmt =
     \<lparr>dev_path = path, dev_protected = False, dev_size = 1024, dev_disks = [''sda''],
      dev_format = fmt\<rparr>"

definition sda_tree :: DeviceTree where
  "sda_tree =
     \<lparr>dt_devices = (\<lambda>d.
        if d = 1 then sda_partition ''/dev/sda1''
                        \<lparr>fmt_type = Some ''ext4'', fmt_mountable = True, fmt_mountpoint = Some ''/''\<rparr>
        else if d = 2 then sda_partition ''/dev/sda2''
                        \<lparr>fmt_type = Some ''ext4'', fmt_mountable = True, fmt_mountpoint = None\<rparr>
        else sda_partition ''/dev/sda3''
                        \<lparr>fmt_type = None, fmt_mountable = False, fmt_mountpoint = None\<rparr>),
      leaves = [1, 2, 3],
      resolve_device = (\<lambda>spec.
        if spec = ''sda1'' \<or> spec = ''/dev/sda1'' then Some 1
        else if spec = ''sda2'' \<or> spec = ''/dev/sda2'' then Some 2
        else if spec = ''sda3'' \<or> spec = ''/dev/sda3'' then Some 3
        else None)\<rparr>"

definition sda_blivet :: Blivet where
  "sda_blivet = empty_blivet\<lparr>devicetree := sda_tree\<rparr>"

definition sda_kickstart :: KickstartData where
  "sda_kickstart =
     \<lparr>mount_seen = True,
      mount_points =
        [\<lparr>md_mount_point = ''/'', md_device = ''sda1'', md_reformat = False,
          md_format = [], md_mkfs_opts = [], md_mount_opts = []\<rparr>,
         \<lparr>md_mount_point = ''/home'', md_device = ''sda2'', md_reformat = True,
          md_format = ''xfs'', md_mkfs_opts = [], md_mount_opts = ''noatime''\<rparr>]\<rparr>"

text \<open>A handler as the kickstart parser makes it: the \<open>mount\<close> command not seen.\<close>

definition fresh_handler :: KickstartData where
  "fresh_handler = \<lparr>mount_seen = False, mount_points = []\<rparr>"

text \<open>
  The module after it processed \<open>sda_kickstart\<close> and was given the model
  \<open>sda_blivet\<close>: two declared requests, the objects 0 and 1.
\<close>

definition sda_module :: ManualPartitioningModule where
  "sda_module = (process_kickstart sda_kickstart ManualPartitioningModule_init)
                  \<lparr>storage_held := Some sda_blivet\<rparr>"

text \<open>
  The request the loop of \<open>process_kickstart\<close> builds from a mount record, and the
  mount record the loop of \<open>setup_kickstart\<close> builds from a request.
\<close>

definition request_of_mount_data :: "MountData \<Rightarrow> MountPointRequest" where
  "request_of_mount_data mount_data =
     \<lparr>mount_point = md_mount_point mount_data,
      device_spec = md_device mount_data,
      reformat = md_reformat mount_data,
      format_type = md_format mount_data,
      format_options = md_mkfs_opts mount_data,
      mount_options = md_mount_opts mount_data\<rparr>"

definition mount_data_of_request :: "MountPointRequest \<Rightarrow> MountData" where
  "mount_data_of_request request =
     \<lparr>md_mount_point = mount_point request,
      md_device = device_spec request,
      md_reformat = reformat request,
      md_format = format_type request,
      md_mkfs_opts = format_options request,
      md_mount_opts = mount_options request\<rparr>"

text \<open>
  The way regenerated kickstart data comes back to \<open>process_kickstart\<close>. The
  storage module hands out the handler filled by \<open>setup_kickstart\<close> as text
  (\<open>generate_kickstart\<close>, storage.py, lines 174-182, returns \<open>str(data)\<close>), and
  a kickstart parser reads text into a new handler. Both the text form and the
  parser belong to pykickstart, an external library: the \<open>mount\<close> command is
  written as one line per mount point, and a parser marks a command as seen when
  it reads a line of it. \<open>read_back\<close> is the handler a parser makes of the text
  of \<open>data\<close>: the same mount points, seen exactly when there is one.
\<close>

definition read_back :: "KickstartData \<Rightarrow> KickstartData" where
  "read_back data =
     \<lparr>mount_seen = (mount_points data \<noteq> []), mount_points = mount_points data\<rparr>"




section \<open>The network initialization tasks (initialization.py)\<close>

text \<open>
  NetworkManager's devices, connections and active connections are objects of the
  backend; the tasks only hold references to them.
\<close>

datatype NM_Device = Device nat

datatype NM_Connection = Connection nat

datatype NM_ActiveConnection = ActiveConnection nat

text \<open>The two attributes the tasks read of an ifcfg file.\<close>

record IfcfgFile =
  ifcfg_uuid :: string
  ifcfg_is_from_kickstart :: bool

text \<open>The attributes the tasks read of one kickstart \<open>network\<close> directive.\<close>

record NetworkData =
  nd_device :: string
  nd_essid :: string
  nd_activate :: bool
  nd_onboot :: bool
  nd_vlanid :: string
  nd_bondslaves :: string
  nd_teamslaves :: string
  nd_bridgeslaves :: string

text \<open>
  The calls a task makes on the backend: the methods of the client, the helper
  functions of pyanaconda.modules.network.nm_client and
  pyanaconda.modules.network.ifcfg (neither among the sources), and the methods
  that change a connection. Each carries its arguments.
\<close>

datatype call =
    Get_devices
  | Get_device_by_iface string
  | Get_connection_by_uuid string
  | Activate_connection_async "NM_Connection option" "NM_Device option"
  | Get_device_name_from_network_data NetworkData "string list" string
  | Get_ifcfg_file_of_device string
  | Ensure_active_connection_for_device string string bool
  | Update_connection_from_ksdata "NM_Connection option" NetworkData string
  | Add_connection_from_ksdata NetworkData string bool "string list"
  | Find_ifcfg_uuid_of_device string
  | Update_onboot_value string bool
  | Update_iface_setting_values string "(string \<times> string \<times> bool) list"
  | Update_slaves_onboot_value string bool "string option"
  | Bound_hwaddr_of_device string "string list"
  | Set_property NM_Connection string string "string option"
  | Commit_changes NM_Connection

text \<open>
  The backend is opaque and stateful: what a call returns may depend on every
  call made before. So the state of the backend is the history of the calls made
  on it, and the backend itself is a record of functions that give, for a history,
  what a call made then returns. A task takes the history and returns it extended
  by its own calls. The getters of the objects (\<open>get_iface\<close>,
  \<open>get_available_connections\<close>, \<open>get_uuid\<close> and so on) read the backend's state
  at the moment of the call and are not recorded; an object can only be reached
  through a recorded call. \<open>get_master\<close> is
  \<open>con.get_setting_connection().get_master()\<close>.
\<close>

record backend =
  get_devices :: "call list \<Rightarrow> NM_Device list"
  get_device_by_iface :: "call list \<Rightarrow> string \<Rightarrow> NM_Device option"
  get_connection_by_uuid :: "call list \<Rightarrow> string \<Rightarrow> NM_Connection option"
  get_available_connections :: "call list \<Rightarrow> NM_Device \<Rightarrow> NM_Connection list"
  get_iface :: "call list \<Rightarrow> NM_Device \<Rightarrow> string"
  get_device_type :: "call list \<Rightarrow> NM_Device \<Rightarrow> nat"
  get_active_connection :: "call list \<Rightarrow> NM_Device \<Rightarrow> NM_ActiveConnection option"
  get_connection :: "call list \<Rightarrow> NM_ActiveConnection \<Rightarrow> NM_Connection option"
  get_master :: "call list \<Rightarrow> NM_Connection \<Rightarrow> string option"
  get_interface_name :: "call list \<Rightarrow> NM_Connection \<Rightarrow> string option"
  get_uuid :: "call list \<Rightarrow> NM_Connection \<Rightarrow> string"
  get_device_name_from_network_data ::
    "call list \<Rightarrow> NetworkData \<Rightarrow> string list \<Rightarrow> string \<Rightarrow> string"
  get_ifcfg_file_of_device :: "call list \<Rightarrow> string \<Rightarrow> IfcfgFile option"
  ensure_active_connection_for_device :: "call list \<Rightarrow> string \<Rightarrow> string \<Rightarrow> bool \<Rightarrow> bool"
  find_ifcfg_uuid_of_device :: "call list \<Rightarrow> string \<Rightarrow> string option"
  update_onboot_value :: "call list \<Rightarrow> string \<Rightarrow> bool \<Rightarrow> bool"
  update_iface_setting_values ::
    "call list \<Rightarrow> string \<Rightarrow> (string \<times> string \<times> bool) list \<Rightarrow> int"
  update_slaves_onboot_value ::
    "call list \<Rightarrow> string \<Rightarrow> bool \<Rightarrow> string option \<Rightarrow> string list"
  bound_hwaddr_of_device :: "call list \<Rightarrow> string \<Rightarrow> string list \<Rightarrow> string option"

text \<open>Python's truth value of a string, and of a string that may be \<open>None\<close>.\<close>

definition truthy :: "string \<Rightarrow> bool" where
  "truthy s \<longleftrightarrow> s \<noteq> []"

definition truthy_opt :: "string option \<Rightarrow> bool" where
  "truthy_opt v = (case v of None \<Rightarrow> False | Some s \<Rightarrow> s \<noteq> [])"

text \<open>
  The decorator \<open>guard_by_system_configuration\<close>, lines 38-48;
  \<open>can_configure_network\<close> is \<open>conf.system.can_configure_network\<close> at the time of
  the call.
\<close>

definition guard_by_system_configuration ::
  "bool \<Rightarrow> 'r \<Rightarrow> (call list \<Rightarrow> 'r \<times> call list) \<Rightarrow> call list \<Rightarrow> 'r \<times> call list" where
  "guard_by_system_configuration can_configure_network return_value function h =
     (if \<not> can_configure_network then (return_value, h) else function h)"

subsection \<open>ApplyKickstartTask\<close>

text \<open>
  The body of the loop of \<open>ApplyKickstartTask.run\<close>, lines 101-142, for one
  directive: the names appended to \<open>applied_devices\<close> and the history.
\<close>

definition apply_network_data ::
  "backend \<Rightarrow> string list \<Rightarrow> string \<Rightarrow> string list \<Rightarrow> NetworkData \<Rightarrow> call list
     \<Rightarrow> string list \<times> call list" where
  "apply_network_data nm supported_devices bootif ifname_option_values network_data h =
     (if truthy (nd_essid network_data) then ([], h)
      else
        (let device_name = get_device_name_from_network_data nm h network_data
                             supported_devices bootif;
             h1 = h @ [Get_device_name_from_network_data network_data supported_devices bootif]
         in if \<not> truthy device_name then ([], h1)
            else
              (let ifcfg_file = get_ifcfg_file_of_device nm h1 device_name;
                   h2 = h1 @ [Get_ifcfg_file_of_device device_name]
               in case ifcfg_file of
                    None \<Rightarrow>
                      ([device_name],
                       h2 @ [Add_connection_from_ksdata network_data device_name
                               (nd_activate network_data) ifname_option_values])
                  | Some file \<Rightarrow>
                      if ifcfg_is_from_kickstart file
                      then (if nd_activate network_data
                            then (let activated = ensure_active_connection_for_device nm h2
                                                    (ifcfg_uuid file) device_name False;
                                      h3 = h2 @ [Ensure_active_connection_for_device
                                                   (ifcfg_uuid file) device_name False]
                                  in (if activated then [device_name] else [], h3))
                            else ([], h2))
                      else
                        (let con_uuid = ifcfg_uuid file;
                             connection = get_connection_by_uuid nm h2 con_uuid;
                             h3 = h2 @ [Get_connection_by_uuid con_uuid];
                             h4 = h3 @ [Update_connection_from_ksdata connection network_data
                                          device_name]
                         in if nd_activate network_data
                            then (let device = get_device_by_iface nm h4 device_name;
                                      h5 = h4 @ [Get_device_by_iface device_name];
                                      h6 = h5 @ [Activate_connection_async connection device]
                                  in ([device_name], h6))
                            else ([device_name], h4)))))"

fun apply_kickstart_loop ::
  "backend \<Rightarrow> string list \<Rightarrow> string \<Rightarrow> string list \<Rightarrow> NetworkData list \<Rightarrow> string list
     \<Rightarrow> call list \<Rightarrow> string list \<times> call list" where
  "apply_kickstart_loop nm supported_devices bootif ifname_option_values [] applied_devices h =
     (applied_devices, h)"
| "apply_kickstart_loop nm supported_devices bootif ifname_option_values (network_data # rest)
     applied_devices h =
     (let (new, h1) = apply_network_data nm supported_devices bootif ifname_option_values
                        network_data h
      in apply_kickstart_loop nm supported_devices bootif ifname_option_values rest
           (applied_devices @ new) h1)"

text \<open>
  \<open>ApplyKickstartTask.run\<close>, lines 83-144. \<open>nm_client\<close> is \<open>None\<close> when there is
  no NetworkManager; an empty list of directives is falsy.
\<close>

definition ApplyKickstartTask_run ::
  "bool \<Rightarrow> backend option \<Rightarrow> NetworkData list \<Rightarrow> string list \<Rightarrow> string \<Rightarrow> string list
     \<Rightarrow> call list \<Rightarrow> (error + string list) \<times> call list" where
  "ApplyKickstartTask_run can_configure_network nm_client network_data supported_devices bootif
     ifname_option_values =
     guard_by_system_configuration can_configure_network (Inr [])
       (\<lambda>h. if network_data = [] then (Inr [], h)
            else case nm_client of
                   None \<Rightarrow> (Inr [], h)
                 | Some nm \<Rightarrow>
                     (let (applied_devices, h1) =
                            apply_kickstart_loop nm supported_devices bootif ifname_option_values
                              network_data [] h
                      in (Inr applied_devices, h1)))"

subsection \<open>ConsolidateInitramfsConnectionsTask\<close>

text \<open>\<open>_select_persistent_connection_for_iface\<close>, lines 224-229.\<close>

fun select_persistent_connection_for_iface ::
  "backend \<Rightarrow> call list \<Rightarrow> string \<Rightarrow> NM_Connection list \<Rightarrow> NM_Connection option" where
  "select_persistent_connection_for_iface nm h iface [] = None"
| "select_persistent_connection_for_iface nm h iface (con # rest) =
     (if get_interface_name nm h con = Some iface then Some con
      else select_persistent_connection_for_iface nm h iface rest)"

text \<open>
  The variable \<open>con_for_iface\<close> is bound to a connection object on line 198 and to
  \<open>ifcfg_file.uuid\<close>, a string, on line 208. Line 215 calls \<open>get_uuid()\<close> on it; a
  string has no such attribute.
\<close>

datatype con_or_str = Con NM_Connection | Str string

definition call_get_uuid :: "backend \<Rightarrow> call list \<Rightarrow> con_or_str \<Rightarrow> error + string" where
  "call_get_uuid nm h v = (case v of Con con \<Rightarrow> Inr (get_uuid nm h con) | Str s \<Rightarrow> Inl AttributeError)"

text \<open>
  The body of the loop of \<open>ConsolidateInitramfsConnectionsTask.run\<close>, lines
  181-220, for one device: the name to append, if any, or the exception.
\<close>

definition consolidate_device ::
  "backend \<Rightarrow> NM_Device \<Rightarrow> call list \<Rightarrow> (error + string option) \<times> call list" where
  "consolidate_device nm device h =
     (let cons = get_available_connections nm h device;
          number_of_connections = length cons;
          iface = get_iface nm h device
      in if number_of_connections < 2 then (Inr None, h)
         else if list_ex (\<lambda>con. truthy_opt (get_master nm h con)) cons then (Inr None, h)
         else
           (let ifcfg_file = get_ifcfg_file_of_device nm h iface;
                h1 = h @ [Get_ifcfg_file_of_device iface];
                chosen =
                  (case ifcfg_file of
                     None \<Rightarrow>
                       (case select_persistent_connection_for_iface nm h1 iface cons of
                          None \<Rightarrow> None
                        | Some con \<Rightarrow> Some (Con con))
                   | Some file \<Rightarrow>
                       if ifcfg_is_from_kickstart file then None
                       else Some (Str (ifcfg_uuid file)))
            in case chosen of
                 None \<Rightarrow> (Inr None, h1)
               | Some con_for_iface \<Rightarrow>
                   (case call_get_uuid nm h1 con_for_iface of
                      Inl e \<Rightarrow> (Inl e, h1)
                    | Inr con_uuid \<Rightarrow>
                        (Inr (Some iface),
                         h1 @ [Ensure_active_connection_for_device con_uuid iface True]))))"

fun consolidate_devices ::
  "backend \<Rightarrow> NM_Device list \<Rightarrow> string list \<Rightarrow> call list \<Rightarrow> (error + string list) \<times> call list" where
  "consolidate_devices nm [] consolidated_devices h = (Inr consolidated_devices, h)"
| "consolidate_devices nm (device # rest) consolidated_devices h =
     (case consolidate_device nm device h of
        (Inl e, h1) \<Rightarrow> (Inl e, h1)
      | (Inr None, h1) \<Rightarrow> consolidate_devices nm rest consolidated_devices h1
      | (Inr (Some iface), h1) \<Rightarrow>
          consolidate_devices nm rest (consolidated_devices @ [iface]) h1)"

text \<open>
  The devices the loop reaches, each with the history of that moment. The loop
  ends where the body raises.
\<close>

fun consolidate_visits ::
  "backend \<Rightarrow> NM_Device list \<Rightarrow> call list \<Rightarrow> (NM_Device \<times> call list) list" where
  "consolidate_visits nm [] h = []"
| "consolidate_visits nm (device # rest) h =
     (device, h) #
     (case consolidate_device nm device h of
        (Inl e, h1) \<Rightarrow> []
      | (Inr kept, h1) \<Rightarrow> consolidate_visits nm rest h1)"

text \<open>
  The devices the task consolidates, as the code selects them: a device with two
  or more available connections, none of them with a master, without an ifcfg
  file, and with an available connection whose interface name is the name of
  the device.
\<close>

definition consolidates :: "backend \<Rightarrow> NM_Device \<Rightarrow> call list \<Rightarrow> bool" where
  "consolidates nm device h =
     (let cons = get_available_connections nm h device;
          iface = get_iface nm h device;
          h1 = h @ [Get_ifcfg_file_of_device iface]
      in 2 \<le> length cons \<and>
         (\<forall>con \<in> set cons. \<not> truthy_opt (get_master nm h con)) \<and>
         get_ifcfg_file_of_device nm h iface = None \<and>
         (\<exists>con \<in> set cons. get_interface_name nm h1 con = Some iface))"

text \<open>\<open>ConsolidateInitramfsConnectionsTask.run\<close>, lines 167-222.\<close>

definition ConsolidateInitramfsConnectionsTask_run ::
  "bool \<Rightarrow> backend option \<Rightarrow> call list \<Rightarrow> (error + string list) \<times> call list" where
  "ConsolidateInitramfsConnectionsTask_run can_configure_network nm_client =
     guard_by_system_configuration can_configure_network (Inr [])
       (\<lambda>h. case nm_client of
              None \<Rightarrow> (Inr [], h)
            | Some nm \<Rightarrow> consolidate_devices nm (get_devices nm h) [] (h @ [Get_devices]))"

subsection \<open>SetRealOnbootValuesFromKickstartTask\<close>

text \<open>
  The body of the inner loop of \<open>SetRealOnbootValuesFromKickstartTask.run\<close>, lines
  301-318, for one device name: whether the name is appended to
  \<open>updated_devices\<close> (it is not after a \<open>continue\<close>), and the history.
  \<open>find_ifcfg_uuid_of_device(...) or ""\<close> is the uuid found, or the empty string.
\<close>

definition update_onboot ::
  "backend \<Rightarrow> NetworkData \<Rightarrow> string \<Rightarrow> call list \<Rightarrow> bool \<times> call list" where
  "update_onboot nm network_data devname h =
     (if nd_onboot network_data
      then (let found = find_ifcfg_uuid_of_device nm h devname;
                h1 = h @ [Find_ifcfg_uuid_of_device devname];
                uuid = (case found of None \<Rightarrow> [] | Some u \<Rightarrow> u);
                written = update_onboot_value nm h1 uuid (nd_onboot network_data);
                h2 = h1 @ [Update_onboot_value uuid (nd_onboot network_data)]
            in (written, h2))
      else (let values = [(''connection'', ''autoconnect'', nd_onboot network_data)];
                n_cons = update_iface_setting_values nm h devname values;
                h1 = h @ [Update_iface_setting_values devname values]
            in if n_cons \<noteq> 1
               then (if n_cons > 1
                     then (let found = find_ifcfg_uuid_of_device nm h1 devname;
                               h2 = h1 @ [Find_ifcfg_uuid_of_device devname];
                               uuid = (case found of None \<Rightarrow> [] | Some u \<Rightarrow> u);
                               written = update_onboot_value nm h2 uuid (nd_onboot network_data);
                               h3 = h2 @ [Update_onboot_value uuid (nd_onboot network_data)]
                           in (written, h3))
                     else (True, h1))
               else (True, h1)))"

text \<open>The inner loop, lines 300-318, over \<open>devices_to_update\<close>.\<close>

fun update_devices ::
  "backend \<Rightarrow> NetworkData \<Rightarrow> string list \<Rightarrow> string list \<Rightarrow> call list
     \<Rightarrow> string list \<times> call list" where
  "update_devices nm network_data [] updated_devices h = (updated_devices, h)"
| "update_devices nm network_data (devname # rest) updated_devices h =
     (let (updated, h1) = update_onboot nm network_data devname h
      in update_devices nm network_data rest
           (if updated then updated_devices @ [devname] else updated_devices) h1)"

text \<open>
  \<open>devices_to_update\<close> and \<open>master\<close> as lines 289-298 compute them from the
  resolved device name.
\<close>

definition devices_to_update :: "NetworkData \<Rightarrow> string \<Rightarrow> string list" where
  "devices_to_update network_data device_name =
     (if truthy (nd_vlanid network_data) \<and>
         (truthy (nd_bondslaves network_data) \<or> truthy (nd_teamslaves network_data))
      then [device_name] @ [nd_device network_data]
      else [device_name])"

definition master_of :: "NetworkData \<Rightarrow> string \<Rightarrow> string" where
  "master_of network_data device_name =
     (if truthy (nd_vlanid network_data) \<and>
         (truthy (nd_bondslaves network_data) \<or> truthy (nd_teamslaves network_data))
      then nd_device network_data
      else device_name)"

text \<open>
  The handling of slaves, lines 321-333: the names
  \<open>update_slaves_onboot_value\<close> returns, added to \<open>updated_devices\<close>.
\<close>

definition update_slaves ::
  "backend \<Rightarrow> NetworkData \<Rightarrow> string \<Rightarrow> call list \<Rightarrow> string list \<times> call list" where
  "update_slaves nm network_data master h =
     (if truthy (nd_bondslaves network_data) \<or> truthy (nd_teamslaves network_data) \<or>
         truthy (nd_bridgeslaves network_data)
      then (let device = get_device_by_iface nm h master;
                h1 = h @ [Get_device_by_iface master];
                uuid = (case device of
                          None \<Rightarrow> None
                        | Some d \<Rightarrow>
                            (case get_available_connections nm h1 d of
                               [con] \<Rightarrow> Some (get_uuid nm h1 con)
                             | _ \<Rightarrow> None));
                updated_slaves = update_slaves_onboot_value nm h1 master
                                   (nd_onboot network_data) uuid;
                h2 = h1 @ [Update_slaves_onboot_value master (nd_onboot network_data) uuid]
            in (updated_slaves, h2))
      else ([], h))"

text \<open>
  The outer loop, lines 281-333. A device name that is not found is only logged
  (line 287): the loop goes on with the falsy name.
\<close>

fun set_real_onboot_loop ::
  "backend \<Rightarrow> string list \<Rightarrow> string \<Rightarrow> NetworkData list \<Rightarrow> string list \<Rightarrow> call list
     \<Rightarrow> string list \<times> call list" where
  "set_real_onboot_loop nm supported_devices bootif [] updated_devices h = (updated_devices, h)"
| "set_real_onboot_loop nm supported_devices bootif (network_data # rest) updated_devices h =
     (let device_name = get_device_name_from_network_data nm h network_data
                          supported_devices bootif;
          h1 = h @ [Get_device_name_from_network_data network_data supported_devices bootif];
          (updated1, h2) = update_devices nm network_data
                             (devices_to_update network_data device_name) updated_devices h1;
          (updated_slaves, h3) = update_slaves nm network_data
                                   (master_of network_data device_name) h2
      in set_real_onboot_loop nm supported_devices bootif rest (updated1 @ updated_slaves) h3)"

text \<open>\<open>SetRealOnbootValuesFromKickstartTask.run\<close>, lines 264-335.\<close>

definition SetRealOnbootValuesFromKickstartTask_run ::
  "bool \<Rightarrow> backend option \<Rightarrow> NetworkData list \<Rightarrow> string list \<Rightarrow> string
     \<Rightarrow> call list \<Rightarrow> (error + string list) \<times> call list" where
  "SetRealOnbootValuesFromKickstartTask_run can_configure_network nm_client network_data
     supported_devices bootif =
     guard_by_system_configuration can_configure_network (Inr [])
       (\<lambda>h. case nm_client of
              None \<Rightarrow> (Inr [], h)
            | Some nm \<Rightarrow>
                if network_data = [] then (Inr [], h)
                else (let (updated_devices, h1) =
                            set_real_onboot_loop nm supported_devices bootif network_data [] h
                      in (Inr updated_devices, h1)))"

subsection \<open>DumpMissingIfcfgFilesTask\<close>

text \<open>
  \<open>_select_persistent_connection_for_device\<close>, lines 364-378. An active
  connection without a connection makes \<open>con.get_interface_name()\<close> fail. The
  loop of lines 375-378 is the loop of \<open>_select_persistent_connection_for_iface\<close>.
\<close>

definition select_persistent_connection_for_device ::
  "backend \<Rightarrow> call list \<Rightarrow> NM_Device \<Rightarrow> NM_Connection list \<Rightarrow> error + NM_Connection option" where
  "select_persistent_connection_for_device nm h device cons =
     (let iface = get_iface nm h device;
          ac = get_active_connection nm h device
      in case ac of
           None \<Rightarrow> Inr (select_persistent_connection_for_iface nm h iface cons)
         | Some active \<Rightarrow>
             (case get_connection nm h active of
                None \<Rightarrow> Inl AttributeError
              | Some con \<Rightarrow>
                  if get_interface_name nm h con = Some iface \<and> con \<in> set cons
                  then Inr (Some con)
                  else Inr (select_persistent_connection_for_iface nm h iface cons)))"

text \<open>
  \<open>_update_connection\<close>, lines 380-393. The three properties are NetworkManager's
  \<open>id\<close> and \<open>interface-name\<close> of the connection setting and \<open>mac-address\<close> of
  the wired setting.
\<close>

definition update_connection ::
  "backend \<Rightarrow> string list \<Rightarrow> NM_Connection \<Rightarrow> string \<Rightarrow> call list \<Rightarrow> call list" where
  "update_connection nm ifname_option_values con iface h =
     (let h1 = h @ [Set_property con ''connection'' ''id'' (Some iface)];
          h2 = h1 @ [Set_property con ''connection'' ''interface-name'' (Some iface)];
          h3 = h2 @ [Set_property con ''802-3-ethernet'' ''mac-address'' None];
          bound_mac = bound_hwaddr_of_device nm h3 iface ifname_option_values;
          h4 = h3 @ [Bound_hwaddr_of_device iface ifname_option_values]
      in if truthy_opt bound_mac
         then h4 @ [Set_property con ''802-3-ethernet'' ''mac-address'' bound_mac]
         else h4)"

text \<open>
  The body of the loop of \<open>DumpMissingIfcfgFilesTask.run\<close>, lines 409-448, for one
  device: the name to append, if any, or the exception.
  \<open>supported_wired_device_types\<close> is the constant of
  pyanaconda.modules.network.device_configuration, not among the sources.
\<close>

definition dump_device ::
  "backend \<Rightarrow> nat list \<Rightarrow> NetworkData \<Rightarrow> string list \<Rightarrow> NM_Device \<Rightarrow> call list
     \<Rightarrow> (error + string option) \<times> call list" where
  "dump_device nm supported_wired_device_types default_network_data ifname_option_values device h =
     (if get_device_type nm h device \<notin> set supported_wired_device_types then (Inr None, h)
      else
        (let iface = get_iface nm h device;
             ifcfg_file = get_ifcfg_file_of_device nm h iface;
             h1 = h @ [Get_ifcfg_file_of_device iface]
         in if ifcfg_file \<noteq> None then (Inr None, h1)
            else
              (let cons = get_available_connections nm h1 device;
                   n_cons = length cons;
                   device_is_slave = list_ex (\<lambda>con. truthy_opt (get_master nm h1 con)) cons
               in if n_cons = 0
                  then (Inr (Some iface),
                        h1 @ [Add_connection_from_ksdata default_network_data iface False
                                ifname_option_values])
                  else if n_cons = 1
                  then (if device_is_slave then (Inr None, h1)
                        else (let con = hd cons;
                                  h2 = update_connection nm ifname_option_values con iface h1;
                                  h3 = h2 @ [Commit_changes con]
                              in (Inr (Some iface), h3)))
                  else (if \<not> device_is_slave
                        then (case select_persistent_connection_for_device nm h1 device cons of
                                Inl e \<Rightarrow> (Inl e, h1)
                              | Inr None \<Rightarrow> (Inr None, h1)
                              | Inr (Some con) \<Rightarrow>
                                  (let h2 = update_connection nm ifname_option_values con iface h1;
                                       h3 = h2 @ [Commit_changes con]
                                   in (Inr (Some iface), h3)))
                        else (Inr (Some iface), h1)))))"

fun dump_devices ::
  "backend \<Rightarrow> nat list \<Rightarrow> NetworkData \<Rightarrow> string list \<Rightarrow> NM_Device list \<Rightarrow> string list
     \<Rightarrow> call list \<Rightarrow> (error + string list) \<times> call list" where
  "dump_devices nm types default_network_data ifname_option_values [] new_ifcfgs h =
     (Inr new_ifcfgs, h)"
| "dump_devices nm types default_network_data ifname_option_values (device # rest) new_ifcfgs h =
     (case dump_device nm types default_network_data ifname_option_values device h of
        (Inl e, h1) \<Rightarrow> (Inl e, h1)
      | (Inr None, h1) \<Rightarrow>
          dump_devices nm types default_network_data ifname_option_values rest new_ifcfgs h1
      | (Inr (Some iface), h1) \<Rightarrow>
          dump_devices nm types default_network_data ifname_option_values rest
            (new_ifcfgs @ [iface]) h1)"

text \<open>\<open>DumpMissingIfcfgFilesTask.run\<close>, lines 395-450.\<close>

definition DumpMissingIfcfgFilesTask_run ::
  "bool \<Rightarrow> backend option \<Rightarrow> nat list \<Rightarrow> NetworkData \<Rightarrow> string list
     \<Rightarrow> call list \<Rightarrow> (error + string list) \<times> call list" where
  "DumpMissingIfcfgFilesTask_run can_configure_network nm_client supported_wired_device_types
     default_network_data ifname_option_values =
     guard_by_system_configuration can_configure_network (Inr [])
       (\<lambda>h. case nm_client of
              None \<Rightarrow> (Inr [], h)
            | Some nm \<Rightarrow>
                dump_devices nm supported_wired_device_types default_network_data
                  ifname_option_values (get_devices nm h) [] (h @ [Get_devices]))"

subsection \<open>Example backends\<close>

text \<open>
  A machine with one ethernet device (type 1), \<open>ens3\<close>, without an ifcfg file and
  with two connections. Nothing the backend answers depends on the history. The
  three backends differ in the connections: in \<open>unbound_backend\<close> neither is a
  slave nor bound to an interface name; in \<open>bound_backend\<close> the second is bound
  to \<open>ens3\<close>; in \<open>slave_backend\<close> the first is a slave of \<open>bond0\<close>.
\<close>

definition ens3_backend ::
  "(NM_Connection \<Rightarrow> string option) \<Rightarrow> (NM_Connection \<Rightarrow> string option) \<Rightarrow> backend" where
  "ens3_backend master interface_name =
     \<lparr>get_devices = (\<lambda>h. [Device 0]),
      get_device_by_iface = (\<lambda>h iface. if iface = ''ens3'' then Some (Device 0) else None),
      get_connection_by_uuid = (\<lambda>h u. None),
      get_available_connections = (\<lambda>h d. [Connection 0, Connection 1]),
      get_iface = (\<lambda>h d. ''ens3''),
      get_device_type = (\<lambda>h d. 1),
      get_active_connection = (\<lambda>h d. None),
      get_connection = (\<lambda>h a. None),
      get_master = (\<lambda>h. master),
      get_interface_name = (\<lambda>h. interface_name),
      get_uuid = (\<lambda>h con. case con of Connection n \<Rightarrow> if n = 0 then ''uuid-0'' else ''uuid-1''),
      get_device_name_from_network_data = (\<lambda>h nd supported bootif. nd_device nd),
      get_ifcfg_file_of_device = (\<lambda>h iface. None),
      ensure_active_connection_for_device = (\<lambda>h u iface only_replace. True),
      find_ifcfg_uuid_of_device = (\<lambda>h iface. None),
      update_onboot_value = (\<lambda>h u onboot. True),
      update_iface_setting_values = (\<lambda>h iface values. 1),
      update_slaves_onboot_value = (\<lambda>h master onboot u. []),
      bound_hwaddr_of_device = (\<lambda>h iface values. None)\<rparr>"

definition unbound_backend :: backend where
  "unbound_backend = ens3_backend (\<lambda>con. None) (\<lambda>con. None)"

definition bound_backend :: backend where
  "bound_backend =
     ens3_backend (\<lambda>con. None) (\<lambda>con. if con = Connection 1 then Some ''ens3'' else None)"

definition slave_backend :: backend where
  "slave_backend =
     ens3_backend (\<lambda>con. if con = Connection 0 then Some ''bond0'' else None) (\<lambda>con. None)"

text \<open>
  The directive of the scenario of section 8:
  \<open>network --onboot yes --device bond0 --bondslaves ens9,ens10 --vlanid 222\<close>, and a
  backend for it that resolves the directive to the VLAN device \<open>bond0.222\<close> and
  reports every update as done and the two slaves as updated.
\<close>

definition bond_vlan_directive :: NetworkData where
  "bond_vlan_directive =
     \<lparr>nd_device = ''bond0'', nd_essid = [], nd_activate = False, nd_onboot = True,
      nd_vlanid = ''222'', nd_bondslaves = ''ens9,ens10'', nd_teamslaves = [],
      nd_bridgeslaves = []\<rparr>"

definition bond_backend :: backend where
  "bond_backend =
     (ens3_backend (\<lambda>con. None) (\<lambda>con. None))
       \<lparr>get_device_name_from_network_data := (\<lambda>h nd supported bootif. ''bond0.222''),
        get_device_by_iface := (\<lambda>h iface. None),
        update_slaves_onboot_value := (\<lambda>h master onboot u. [''ens9'', ''ens10''])\<rparr>"

text \<open>
  The directive of the scenario with \<open>--onboot no\<close>, and a backend that finds
  two connections for every device and fails to write an ifcfg file.
\<close>

definition bond_vlan_directive_off :: NetworkData where
  "bond_vlan_directive_off = bond_vlan_directive\<lparr>nd_onboot := False\<rparr>"

definition crowded_backend :: backend where
  "crowded_backend =
     bond_backend
       \<lparr>update_iface_setting_values := (\<lambda>h iface values. 2),
        update_onboot_value := (\<lambda>h u onboot. False)\<rparr>"

text \<open>
  The same machine as \<open>unbound_backend\<close>, where \<open>ens3\<close> has an ifcfg file that
  the initramfs made from boot options.
\<close>

definition initramfs_backend :: backend where
  "initramfs_backend =
     unbound_backend
       \<lparr>get_ifcfg_file_of_device :=
          (\<lambda>h iface. Some \<lparr>ifcfg_uuid = ''uuid-0'', ifcfg_is_from_kickstart = False\<rparr>)\<rparr>"

text \<open>The same machine, where the ifcfg file of \<open>ens3\<close> was made from kickstart.\<close>

definition kickstart_backend :: backend where
  "kickstart_backend =
     unbound_backend
       \<lparr>get_ifcfg_file_of_device :=
          (\<lambda>h iface. Some \<lparr>ifcfg_uuid = ''uuid-0'', ifcfg_is_from_kickstart = True\<rparr>)\<rparr>"

text \<open>
  A machine with two devices, \<open>ens3\<close> and \<open>ens4\<close>, each with the two
  connections of \<open>bound_backend\<close>, of which the second is bound to \<open>ens3\<close>.
  \<open>ens3\<close> has no ifcfg file; the ifcfg file of \<open>ens4\<close> is a parameter.
\<close>

definition two_device_backend :: "IfcfgFile option \<Rightarrow> backend" where
  "two_device_backend ens4_file =
     bound_backend
       \<lparr>get_devices := (\<lambda>h. [Device 0, Device 1]),
        get_iface := (\<lambda>h d. if d = Device 0 then ''ens3'' else ''ens4''),
        get_ifcfg_file_of_device := (\<lambda>h iface. if iface = ''ens4'' then ens4_file else None)\<rparr>"

text \<open>The default configuration given to \<open>DumpMissingIfcfgFilesTask\<close> in the examples.\<close>

definition default_configuration :: NetworkData where
  "default_configuration =
     \<lparr>nd_device = [], nd_essid = [], nd_activate = False, nd_onboot = False,
      nd_vlanid = [], nd_bondslaves = [], nd_teamslaves = [], nd_bridgeslaves = []\<rparr>"

section \<open>Properties of the storage module\<close>

lemmas storage_defs = storage_def create_storage_def allocate_def set_storage_def emit_def
  copy_def

lemmas storage_example_defs = running_module_def StorageModule_init_def empty_blivet_def

text \<open>
  Claim C10. Reading the \<open>storage\<close> property when no canonical model exists
  creates one through \<open>set_storage\<close>: the new object becomes the canonical model
  and the \<open>storage_changed\<close> signal has called every connected callback with
  it, in connection order, in the state the read returns. When a model exists the
  read returns it and the state is the same: nothing is modified, nothing emitted.
\<close>

theorem storage_property_creates_lazily:
  "(storage_field self = None \<longrightarrow>
      (let (s, self') = storage created self
       in s = next_ref self \<and>
          storage_field self' = Some s \<and>
          objects self' s = created \<and>
          (\<forall>r. r \<noteq> s \<longrightarrow> objects self' r = objects self r) \<and>
          delivered self' = delivered self @ map (\<lambda>cb. (cb, s)) (storage_changed self))) \<and>
   (\<forall>s. storage_field self = Some s \<longrightarrow> storage created self = (s, self))"
  by (simp add: storage_defs)

theorem storage_property_creates_lazily_witness:
  "storage_field (StorageModule_init empty_blivet) = None \<and>
   (let (s, self') = storage empty_blivet (StorageModule_init empty_blivet)
    in s = 0 \<and> storage_field self' = Some 0 \<and> objects self' 0 = empty_blivet \<and>
       delivered self' =
         [(PartitioningModule_on_storage_reset AUTOMATIC, 0),
          (PartitioningModule_on_storage_reset MANUAL, 0),
          (PartitioningModule_on_storage_reset CUSTOM, 0),
          (PartitioningModule_on_storage_reset INTERACTIVE, 0),
          (PartitioningModule_on_storage_reset BLIVET, 0),
          (DeviceTreeModule_on_storage_reset, 0),
          (DiskInitializationModule_on_storage_reset, 0),
          (DiskSelectionModule_on_storage_reset, 0),
          (SnapshotModule_on_storage_reset, 0),
          (BootloaderModule_on_storage_reset, 0)]) \<and>
   storage_field running_module = Some 0 \<and>
   storage empty_blivet running_module = (0, running_module)"
  using storage_property_creates_lazily [of "StorageModule_init empty_blivet" empty_blivet]
    storage_property_creates_lazily [of running_module empty_blivet]
  by (simp add: storage_defs storage_example_defs)

text \<open>
  Claim C4. \<open>apply_partitioning(module)\<close>, for a module that holds a scratch model
  \<open>s\<close>, validates that model before anything else. It raises
  \<open>InvalidStorageError\<close> exactly when the validation fails, and then the state is
  the one before the call: the canonical model is unchanged and nothing was
  emitted. When the validation succeeds the call returns normally, the canonical
  model is a new object with the content of the scratch model, no other object
  changed, and \<open>storage_changed\<close> has called every connected callback with the new
  model.
\<close>

theorem apply_partitioning_validates_then_swaps:
  assumes "module = Some s"
  shows "(fst (apply_partitioning valid module self) = Inl InvalidStorageError \<longleftrightarrow>
            \<not> valid (objects self s)) \<and>
         (\<not> valid (objects self s) \<longrightarrow> snd (apply_partitioning valid module self) = self) \<and>
         (valid (objects self s) \<longrightarrow>
            (let (res, self') = apply_partitioning valid module self
             in res = Inr () \<and>
                storage_field self' = Some (next_ref self) \<and>
                objects self' (next_ref self) = objects self s \<and>
                (\<forall>r. r \<noteq> next_ref self \<longrightarrow> objects self' r = objects self r) \<and>
                delivered self' =
                  delivered self @ map (\<lambda>cb. (cb, next_ref self)) (storage_changed self)))"
  using assms
  by (simp add: apply_partitioning_def module_storage_def validate_run_def storage_defs)

theorem apply_partitioning_validates_then_swaps_witness:
  "apply_partitioning (\<lambda>b. False) (Some 0) running_module =
     (Inl InvalidStorageError, running_module) \<and>
   (let (res, self') = apply_partitioning (\<lambda>b. True) (Some 0) running_module
    in res = Inr () \<and> storage_field self' = Some 1 \<and> objects self' 1 = empty_blivet \<and>
       length (delivered self') = 20 \<and>
       drop 10 (delivered self') = map (\<lambda>cb. (cb, 1)) (storage_changed running_module))"
  using apply_partitioning_validates_then_swaps [of "Some 0" 0 "\<lambda>b. False" running_module]
    apply_partitioning_validates_then_swaps [of "Some 0" 0 "\<lambda>b. True" running_module]
  by (simp add: apply_partitioning_def module_storage_def validate_run_def storage_defs
        storage_example_defs)

text \<open>
  Claim C3, as stated, fails where no canonical model exists yet:
  \<open>reset_with_task\<close> reads \<open>self.storage\<close>, and on a module that was just
  constructed that read creates the canonical model and emits \<open>storage_changed\<close>,
  before any task has run.
\<close>

theorem reset_with_task_counterexample:
  "\<not> (let (task, self') = reset_with_task empty_blivet (StorageModule_init empty_blivet)
      in storage_field self' = storage_field (StorageModule_init empty_blivet) \<and>
         delivered self' = delivered (StorageModule_init empty_blivet))"
  by (simp add: reset_with_task_def storage_defs storage_example_defs)

text \<open>
  Claim C3, amended. \<open>reset_with_task()\<close> first reads \<open>self.storage\<close>; let
  \<open>c\<close> be the model and \<open>self0\<close> the state that read returns. When a
  canonical model exists, \<open>self0\<close> is the state before the call: nothing was
  modified. When none exists, the read has created \<open>c\<close> and \<open>storage_changed\<close>
  has called every connected callback with it. In both cases, when
  \<open>reset_with_task()\<close> returns, \<open>c\<close> is the canonical model with the content
  it had after the read, and nothing more was emitted. The task holds a new
  object, a copy of \<open>c\<close> with the ignored, exclusive and protected disks and the
  disk images of the disk selection module. Whatever the task's \<open>run()\<close> does to
  its model, the object \<open>c\<close> keeps its content; if the task succeeds the
  canonical model is the task's model and \<open>storage_changed\<close> has called every
  connected callback with it; if the task fails the canonical model is still
  \<open>c\<close> and nothing was emitted. A model the module holds is an allocated object.
\<close>

theorem reset_with_task_swaps_on_success_only:
  assumes "\<forall>c. storage_field self = Some c \<longrightarrow> c < next_ref self"
  shows "(let (c, self0) = storage created self;
              (task, self') = reset_with_task created self
          in (storage_field self \<noteq> None \<longrightarrow> self0 = self) \<and>
             (storage_field self = None \<longrightarrow>
                c = next_ref self \<and> objects self0 c = created \<and>
                delivered self0 = delivered self @ map (\<lambda>cb. (cb, c)) (storage_changed self)) \<and>
             storage_field self0 = Some c \<and>
             storage_field self' = Some c \<and>
             objects self' c = objects self0 c \<and>
             delivered self' = delivered self0 \<and>
             storage_changed self' = storage_changed self \<and>
             task_storage task = next_ref self0 \<and>
             task_storage task \<noteq> c \<and>
             objects self' (task_storage task) =
               (objects self0 c)
                 \<lparr>ignored_disks := sel_ignored_disks self,
                  exclusive_disks := sel_exclusive_disks self,
                  protected_devices := sel_protected_devices self,
                  disk_images := sel_disk_images self\<rparr> \<and>
             (\<forall>reset.
                let (succeeded, self'') = run_task reset task self'
                in succeeded = snd (reset (objects self' (task_storage task))) \<and>
                   objects self'' c = objects self0 c \<and>
                   (if succeeded
                    then storage_field self'' = Some (task_storage task) \<and>
                         delivered self'' =
                           delivered self0 @
                             map (\<lambda>cb. (cb, task_storage task)) (storage_changed self)
                    else storage_field self'' = Some c \<and>
                         delivered self'' = delivered self0)))"
proof (cases "storage_field self")
  case None
  then show ?thesis
    by (auto simp add: reset_with_task_def run_task_def storage_defs Let_def split: prod.splits)
next
  case (Some c)
  with assms have "c < next_ref self" by simp
  with Some show ?thesis
    by (auto simp add: reset_with_task_def run_task_def storage_defs Let_def split: prod.splits)
qed

theorem reset_with_task_swaps_on_success_only_witness:
  "storage_field running_module = Some 0 \<and> 0 < next_ref running_module \<and>
   storage empty_blivet running_module = (0, running_module) \<and>
   (let (task, self') = reset_with_task empty_blivet running_module
    in storage_field self' = Some 0 \<and> delivered self' = delivered running_module \<and>
       task_storage task = 1 \<and>
       objects self' 1 =
         empty_blivet\<lparr>ignored_disks := [''sdb''], protected_devices := [''sda1'']\<rparr> \<and>
       storage_field (snd (run_task (\<lambda>b. (b, True)) task self')) = Some 1 \<and>
       delivered (snd (run_task (\<lambda>b. (b, True)) task self')) =
         delivered running_module @ map (\<lambda>cb. (cb, 1)) (storage_changed running_module) \<and>
       storage_field (snd (run_task (\<lambda>b. (b, False)) task self')) = Some 0 \<and>
       delivered (snd (run_task (\<lambda>b. (b, False)) task self')) = delivered running_module) \<and>
   storage_field (StorageModule_init empty_blivet) = None \<and>
   (let (task, self') = reset_with_task empty_blivet (StorageModule_init empty_blivet)
    in storage_field self' = Some 0 \<and> length (delivered self') = 10 \<and>
       task_storage task = 1 \<and> objects self' 1 = empty_blivet \<and>
       storage_field (snd (run_task (\<lambda>b. (b, True)) task self')) = Some 1 \<and>
       length (delivered (snd (run_task (\<lambda>b. (b, True)) task self'))) = 20 \<and>
       storage_field (snd (run_task (\<lambda>b. (b, False)) task self')) = Some 0 \<and>
       delivered (snd (run_task (\<lambda>b. (b, False)) task self')) = delivered self')"
proof -
  have a: "\<forall>c. storage_field running_module = Some c \<longrightarrow> c < next_ref running_module"
    by (simp add: storage_defs storage_example_defs)
  have b: "\<forall>c. storage_field (StorageModule_init empty_blivet) = Some c \<longrightarrow>
                c < next_ref (StorageModule_init empty_blivet)"
    by (simp add: storage_example_defs)
  show ?thesis
    using reset_with_task_swaps_on_success_only [OF a, of empty_blivet]
      reset_with_task_swaps_on_success_only [OF b, of empty_blivet]
    by (simp add: reset_with_task_def run_task_def storage_defs storage_example_defs)
qed

section \<open>Properties of the manual partitioning module\<close>

lemmas manual_defs = sda_module_def sda_kickstart_def sda_blivet_def sda_tree_def sda_partition_def
  empty_blivet_def ManualPartitioningModule_init_def process_kickstart_def new_container_def
  set_requests_def set_enabled_def MountPointRequest_init_def list_append_def set_remove_def
  gather_requests_def module_storage_def create_request_for_device_def usable_device_def Let_def

subsection \<open>The loop of gather_requests\<close>

lemma create_request_for_device_result:
  "create_request_for_device device self = (request, self') \<Longrightarrow>
     request = next_request self \<and>
     request_objects self' = (request_objects self)(next_request self := created_request device) \<and>
     next_request self' = Suc (next_request self) \<and>
     list_objects self' = list_objects self \<and> next_list self' = next_list self \<and>
     enabled_field self' = enabled_field self \<and> requests_field self' = requests_field self \<and>
     selected_disks_field self' = selected_disks_field self \<and>
     storage_held self' = storage_held self \<and> emitted self' = emitted self"
  by (auto simp add: create_request_for_device_def MountPointRequest_init_def created_request_def
        Let_def fun_eq_iff split: option.splits if_splits)



lemma gather_loop_frame:
  "a \<noteq> b \<Longrightarrow>
   (let self' = gather_loop iteration_order dt ds a b self in
     enabled_field self' = enabled_field self \<and> requests_field self' = requests_field self \<and>
     selected_disks_field self' = selected_disks_field self \<and>
     storage_held self' = storage_held self \<and> emitted self' = emitted self \<and>
     next_list self' = next_list self \<and>
     next_request self \<le> next_request self' \<and>
     (\<forall>l. l \<noteq> a \<and> l \<noteq> b \<longrightarrow> list_objects self' l = list_objects self l) \<and>
     (\<forall>r < next_request self. request_objects self' r = request_objects self r))"
proof (induction ds arbitrary: self)
  case Nil
  show ?case by simp
next
  case (Cons d ds)
  show ?case
  proof (cases "find_request_for_device dt (request_objects self) d
                  (iteration_order (list_objects self a))")
    case (Some r)
    let ?s2 = "list_append b r (set_remove a r self)"
    have step: "gather_loop iteration_order dt (d # ds) a b self = gather_loop iteration_order dt ds a b ?s2"
      using Some by simp
    show ?thesis
      using Cons.IH[OF Cons.prems, of ?s2] unfolding step
      by (simp add: Let_def list_append_def set_remove_def)
  next
    case None
    obtain r s1 where cr: "create_request_for_device (dt_devices dt d) self = (r, s1)"
      by (cases "create_request_for_device (dt_devices dt d) self")
    let ?s2 = "list_append b r s1"
    have step: "gather_loop iteration_order dt (d # ds) a b self = gather_loop iteration_order dt ds a b ?s2"
      using None cr by simp
    note res = create_request_for_device_result[OF cr]
    show ?thesis
      using Cons.IH[OF Cons.prems, of ?s2] res unfolding step
      by (simp add: Let_def list_append_def)
  qed
qed






text \<open>
  Claim C9. \<open>gather_requests()\<close> leaves the state of the module as it was,
  whether or not a storage model is available: the \<open>requests\<close> list is the same
  list object with the same elements, every request object that existed keeps its
  fields, the \<open>enabled\<close> flag, the selected disks and the model are the same, and
  \<open>emitted\<close> is unchanged, so neither \<open>requests_changed\<close> nor \<open>enabled_changed\<close>
  was emitted. The requests list is an allocated list object.
\<close>

theorem gather_requests_frame:
  assumes "requests_field self < next_list self"
  shows "(let (result, self') = gather_requests iteration_order self
     in enabled_field self' = enabled_field self \<and>
        requests_field self' = requests_field self \<and>
        list_objects self' (requests_field self) = list_objects self (requests_field self) \<and>
        (\<forall>r < next_request self. request_objects self' r = request_objects self r) \<and>
        emitted self' = emitted self \<and>
        selected_disks_field self' = selected_disks_field self \<and>
        storage_held self' = storage_held self)"
proof -
  let ?a = "next_list self" and ?b = "Suc (next_list self)"
  let ?s2 = "snd (new_container [] (snd (new_container
                (remdups (list_objects self (requests_field self))) self)))"
  have s2: "enabled_field ?s2 = enabled_field self" "requests_field ?s2 = requests_field self"
    "list_objects ?s2 (requests_field self) = list_objects self (requests_field self)"
    "request_objects ?s2 = request_objects self" "next_request ?s2 = next_request self"
    "emitted ?s2 = emitted self" "selected_disks_field ?s2 = selected_disks_field self"
    "storage_held ?s2 = storage_held self"
    using assms by (simp_all add: new_container_def)
  have ab: "?a \<noteq> ?b" by simp
  show ?thesis
  proof (cases "storage_held self")
    case None
    then have "gather_requests iteration_order self = (Inl UnavailableStorageError, ?s2)"
      by (simp add: gather_requests_def new_container_def module_storage_def Let_def)
    then show ?thesis using s2 by (simp add: request_list_def)
  next
    case (Some blivet)
    let ?usable = "iterate_usable_devices (selected_disks_field self) (devicetree blivet)
                     (leaves (devicetree blivet))"
    have run: "gather_requests iteration_order self =
                 (Inr ?b, gather_loop iteration_order (devicetree blivet) ?usable ?a ?b ?s2)"
      using Some by (simp add: gather_requests_def new_container_def module_storage_def Let_def)
    have other: "requests_field self \<noteq> ?a \<and> requests_field self \<noteq> ?b"
      using assms by simp
    show ?thesis
      unfolding run
      using gather_loop_frame[OF ab, of iteration_order "devicetree blivet" ?usable ?s2] s2 other
      by (simp add: Let_def request_list_def)
  qed
qed

theorem gather_requests_frame_witness:
  "requests_field sda_module < next_list sda_module \<and>
   (let (result, self') = gather_requests rev sda_module
    in enabled_field self' \<and>
       requests_field self' = 1 \<and>
       list_objects self' 1 = [0, 1] \<and>
       emitted self' = [requests_changed, enabled_changed])"
proof -
  have pre: "requests_field sda_module < next_list sda_module"
    by (simp add: manual_defs)
  have vals: "enabled_field sda_module" "requests_field sda_module = 1"
    "list_objects sda_module 1 = [0, 1]" "emitted sda_module = [requests_changed, enabled_changed]"
    by (simp_all add: manual_defs)
  show ?thesis
    using pre vals gather_requests_frame[OF pre, of rev]
    by (simp add: split_beta Let_def)
qed

subsection \<open>Kickstart processing\<close>

lemma process_mount_points_result:
  assumes "\<forall>r \<in> set (list_objects self requests). r < next_request self"
  shows "map (request_objects (process_mount_points mds requests self))
             (list_objects (process_mount_points mds requests self) requests) =
           map (request_objects self) (list_objects self requests) @ map request_of_mount_data mds \<and>
         enabled_field (process_mount_points mds requests self) = enabled_field self \<and>
         requests_field (process_mount_points mds requests self) = requests_field self \<and>
         emitted (process_mount_points mds requests self) = emitted self \<and>
         next_list (process_mount_points mds requests self) = next_list self"
  using assms
proof (induction mds arbitrary: self)
  case Nil
  show ?case by simp
next
  case (Cons md mds)
  let ?n = "next_request self"
  let ?s3 = "self\<lparr>next_request := Suc ?n,
                   request_objects := (request_objects self)(?n := request_of_mount_data md),
                   list_objects := (list_objects self)(requests := list_objects self requests @ [?n])\<rparr>"
  have step: "process_mount_points (md # mds) requests self = process_mount_points mds requests ?s3"
    by (simp add: MountPointRequest_init_def list_append_def request_of_mount_data_def Let_def)
  have pre: "\<forall>r \<in> set (list_objects ?s3 requests). r < next_request ?s3"
    using Cons.prems by auto
  have old: "map (request_objects ?s3) (list_objects ?s3 requests) =
               map (request_objects self) (list_objects self requests) @ [request_of_mount_data md]"
    using Cons.prems by auto
  show ?case
    unfolding step using Cons.IH[OF pre] old by simp
qed

lemma setup_mount_points_map:
  "setup_mount_points self rs acc = acc @ map (\<lambda>r. mount_data_of_request (request_objects self r)) rs"
  by (induction rs arbitrary: acc) (simp_all add: mount_data_of_request_def)

lemma mount_data_of_request_inverse:
  "mount_data_of_request (request_of_mount_data md) = md"
  "request_of_mount_data (mount_data_of_request r) = r"
  by (simp_all add: mount_data_of_request_def request_of_mount_data_def)

lemma process_kickstart_result:
  "enabled_field (process_kickstart data self) = mount_seen data \<and>
   request_list (process_kickstart data self) =
     (if mount_seen data then map request_of_mount_data (mount_points data) else [])"
proof (cases "mount_seen data")
  case False
  then show ?thesis
    by (simp add: process_kickstart_def new_container_def set_requests_def set_enabled_def
          request_list_def)
next
  case True
  let ?s1 = "snd (new_container [] self)"
  have pre: "\<forall>r \<in> set (list_objects ?s1 (next_list self)). r < next_request ?s1"
    by (simp add: new_container_def)
  have "list_objects ?s1 (next_list self) = []" by (simp add: new_container_def)
  with process_mount_points_result[OF pre, of "mount_points data"] True
  show ?thesis
    by (simp add: process_kickstart_def new_container_def set_requests_def set_enabled_def
          request_list_def Let_def)
qed

text \<open>
  Claim C5. Kickstart data is what a parser makes of a kickstart file: the
  \<open>mount\<close> command is seen exactly when there is a mount point. A fresh handler
  has no mount points. After \<open>process_kickstart(data)\<close> the module is enabled
  exactly when the command was seen, and its requests are those of the mount
  points. \<open>setup_kickstart\<close> on a fresh handler stores mount points equal to
  those of \<open>data\<close>, field for field and in the same order; it leaves the
  handler's \<open>seen\<close> flag alone, which is the parser's to set. The regenerated
  data, read back from its text, gives \<open>process_kickstart\<close> the same enabled
  flag and the same request list contents, in the same order.
\<close>

theorem kickstart_round_trip:
  assumes parsed: "mount_seen data \<longleftrightarrow> mount_points data \<noteq> []"
    and fresh: "mount_points fresh = []"
  shows "(let self1 = process_kickstart data self;
              regenerated = setup_kickstart self1 fresh;
              self2 = process_kickstart (read_back regenerated) self1
          in mount_seen regenerated = mount_seen fresh \<and>
             mount_points regenerated = mount_points data \<and>
             enabled_field self1 = mount_seen data \<and>
             request_list self1 = map request_of_mount_data (mount_points data) \<and>
             enabled_field self2 = enabled_field self1 \<and>
             request_list self2 = request_list self1)"
proof -
  let ?s1 = "process_kickstart data self"
  note r1 = process_kickstart_result[of data self]
  have "map (\<lambda>r. mount_data_of_request (request_objects ?s1 r))
              (list_objects ?s1 (requests_field ?s1)) =
        map mount_data_of_request (request_list ?s1)"
    by (simp add: request_list_def comp_def)
  then have regen: "mount_points (setup_kickstart ?s1 fresh) = mount_points data"
    using r1 parsed fresh
    by (auto simp add: setup_kickstart_def setup_mount_points_map
          mount_data_of_request_inverse comp_def)
  have seen: "mount_seen (setup_kickstart ?s1 fresh) = mount_seen fresh"
    by (simp add: setup_kickstart_def)
  have reread: "mount_seen (read_back (setup_kickstart ?s1 fresh)) = mount_seen data"
    "mount_points (read_back (setup_kickstart ?s1 fresh)) = mount_points data"
    using regen parsed by (simp_all add: read_back_def)
  show ?thesis
    using r1 regen seen reread parsed
      process_kickstart_result[of "read_back (setup_kickstart ?s1 fresh)" ?s1]
    by (auto simp add: Let_def)
qed

theorem kickstart_round_trip_witness:
  "mount_seen sda_kickstart \<and> mount_points sda_kickstart \<noteq> [] \<and>
   mount_points fresh_handler = [] \<and> \<not> mount_seen fresh_handler \<and>
   (let self1 = process_kickstart sda_kickstart ManualPartitioningModule_init;
        regenerated = setup_kickstart self1 fresh_handler;
        self2 = process_kickstart (read_back regenerated) self1
    in enabled_field self1 \<and> \<not> mount_seen regenerated \<and>
       mount_seen (read_back regenerated) \<and>
       mount_points regenerated = mount_points sda_kickstart \<and>
       enabled_field self2 \<and>
       request_list self2 = map request_of_mount_data (mount_points sda_kickstart)) \<and>
   (let self1 = process_kickstart fresh_handler ManualPartitioningModule_init;
        regenerated = setup_kickstart self1 fresh_handler;
        self2 = process_kickstart (read_back regenerated) self1
    in \<not> enabled_field self1 \<and> \<not> mount_seen (read_back regenerated) \<and>
       \<not> enabled_field self2 \<and> request_list self2 = [])"
proof -
  have p1: "mount_seen sda_kickstart \<longleftrightarrow> mount_points sda_kickstart \<noteq> []"
    and p2: "mount_seen fresh_handler \<longleftrightarrow> mount_points fresh_handler \<noteq> []"
    and f: "mount_points fresh_handler = []"
    by (simp_all add: sda_kickstart_def fresh_handler_def)
  have facts: "mount_seen sda_kickstart" "mount_points sda_kickstart \<noteq> []"
    "\<not> mount_seen fresh_handler"
    by (simp_all add: sda_kickstart_def fresh_handler_def)
  note seen = kickstart_round_trip[OF p1 f, of ManualPartitioningModule_init, unfolded Let_def]
  note unseen = kickstart_round_trip[OF p2 f, of ManualPartitioningModule_init, unfolded Let_def]
  have s1: "mount_seen (read_back (setup_kickstart
              (process_kickstart sda_kickstart ManualPartitioningModule_init) fresh_handler))"
    using seen facts by (simp add: read_back_def)
  have s2: "\<not> mount_seen (read_back (setup_kickstart
              (process_kickstart fresh_handler ManualPartitioningModule_init) fresh_handler))"
    using unseen f by (simp add: read_back_def)
  show ?thesis
    unfolding Let_def using seen unseen s1 s2 facts f by simp
qed

section \<open>Properties of the network initialization tasks\<close>

lemmas backend_defs = unbound_backend_def bound_backend_def slave_backend_def ens3_backend_def
  bond_backend_def bond_vlan_directive_def initramfs_backend_def kickstart_backend_def
  default_configuration_def

lemmas run_defs = ApplyKickstartTask_run_def ConsolidateInitramfsConnectionsTask_run_def
  SetRealOnbootValuesFromKickstartTask_run_def DumpMissingIfcfgFilesTask_run_def
  guard_by_system_configuration_def

text \<open>
  Claim C2. When network configuration is disabled on the system, or there is no
  NetworkManager client, \<open>run()\<close> of each of the four tasks returns the empty list
  as its result, not an exception, and the history of backend calls is the one it
  was given: the task made no call.
\<close>

theorem network_tasks_guarded:
  "\<not> can_configure_network \<or> nm_client = None \<Longrightarrow>
     ApplyKickstartTask_run can_configure_network nm_client network_data supported_devices
       bootif ifname_option_values h = (Inr [], h) \<and>
     ConsolidateInitramfsConnectionsTask_run can_configure_network nm_client h = (Inr [], h) \<and>
     SetRealOnbootValuesFromKickstartTask_run can_configure_network nm_client network_data
       supported_devices bootif h = (Inr [], h) \<and>
     DumpMissingIfcfgFilesTask_run can_configure_network nm_client supported_wired_device_types
       default_network_data ifname_option_values h = (Inr [], h)"
  by (auto simp add: ApplyKickstartTask_run_def ConsolidateInitramfsConnectionsTask_run_def
        SetRealOnbootValuesFromKickstartTask_run_def DumpMissingIfcfgFilesTask_run_def
        guard_by_system_configuration_def)

theorem network_tasks_guarded_witness:
  "ApplyKickstartTask_run False (Some bound_backend) [bond_vlan_directive] [] [] [] [] =
     (Inr [], []) \<and>
   ConsolidateInitramfsConnectionsTask_run False (Some bound_backend) [] = (Inr [], []) \<and>
   SetRealOnbootValuesFromKickstartTask_run True None [bond_vlan_directive] [] [] [] =
     (Inr [], []) \<and>
   DumpMissingIfcfgFilesTask_run True None [1] default_configuration [] [] = (Inr [], [])"
  using network_tasks_guarded
          [where can_configure_network = False and nm_client = "Some bound_backend"
             and network_data = "[bond_vlan_directive]" and supported_devices = "[]"
             and bootif = "[]" and ifname_option_values = "[]" and h = "[]"]
        network_tasks_guarded
          [where can_configure_network = True and nm_client = None
             and network_data = "[bond_vlan_directive]" and supported_devices = "[]"
             and bootif = "[]" and ifname_option_values = "[]" and h = "[]"
             and supported_wired_device_types = "[1]"
             and default_network_data = default_configuration]
  by simp

subsection \<open>Consolidation of initramfs connections\<close>

lemma select_persistent_connection_for_iface_find:
  "select_persistent_connection_for_iface nm h iface cons =
     find (\<lambda>con. get_interface_name nm h con = Some iface) cons"
  by (induction cons) simp_all

lemma consolidate_devices_extends:
  "consolidate_devices nm devices consolidated h = (Inr result, h') \<Longrightarrow>
     \<exists>new. result = consolidated @ new"
proof (induction devices arbitrary: consolidated h)
  case Nil
  then show ?case by simp
next
  case (Cons device rest)
  obtain r h1 where body: "consolidate_device nm device h = (r, h1)"
    by (cases "consolidate_device nm device h")
  show ?case
  proof (cases r)
    case (Inl e)
    then show ?thesis using Cons.prems body by simp
  next
    case (Inr kept)
    show ?thesis
    proof (cases kept)
      case None
      then have "consolidate_devices nm rest consolidated h1 = (Inr result, h')"
        using Cons.prems body Inr by simp
      then show ?thesis by (rule Cons.IH)
    next
      case (Some iface)
      then have "consolidate_devices nm rest (consolidated @ [iface]) h1 = (Inr result, h')"
        using Cons.prems body Inr by simp
      then obtain new where "result = (consolidated @ [iface]) @ new"
        using Cons.IH by blast
      then show ?thesis by simp
    qed
  qed
qed

lemma consolidate_device_kept:
  "consolidate_device nm device h = (Inr (Some iface), h1) \<Longrightarrow>
     consolidates nm device h \<and> iface = get_iface nm h device"
  by (auto simp add: consolidate_device_def consolidates_def Let_def list_ex_iff
        call_get_uuid_def select_persistent_connection_for_iface_find find_Some_iff
        split: if_splits option.splits sum.splits con_or_str.splits)

lemma consolidate_device_skipped:
  "consolidate_device nm device h = (Inr None, h1) \<Longrightarrow> \<not> consolidates nm device h"
  by (auto simp add: consolidate_device_def consolidates_def Let_def list_ex_iff
        call_get_uuid_def select_persistent_connection_for_iface_find find_None_iff
        split: if_splits option.splits sum.splits con_or_str.splits)

lemma consolidate_devices_result:
  "consolidate_devices nm devices consolidated h = (Inr result, h') \<Longrightarrow>
     map fst (consolidate_visits nm devices h) = devices \<and>
     result = consolidated @
       map (\<lambda>(d, h). get_iface nm h d)
         (filter (\<lambda>(d, h). consolidates nm d h) (consolidate_visits nm devices h))"
proof (induction devices arbitrary: consolidated h)
  case Nil
  then show ?case by simp
next
  case (Cons device rest)
  obtain r h1 where body: "consolidate_device nm device h = (r, h1)"
    by (cases "consolidate_device nm device h")
  show ?case
  proof (cases r)
    case (Inl e)
    then show ?thesis using Cons.prems body by simp
  next
    case (Inr kept)
    show ?thesis
    proof (cases kept)
      case None
      then have "consolidate_devices nm rest consolidated h1 = (Inr result, h')"
        using Cons.prems body Inr by simp
      from Cons.IH[OF this] consolidate_device_skipped[of nm device h h1]
      show ?thesis using body Inr None by simp
    next
      case (Some iface)
      then have "consolidate_devices nm rest (consolidated @ [iface]) h1 = (Inr result, h')"
        using Cons.prems body Inr by simp
      from Cons.IH[OF this] consolidate_device_kept[of nm device h iface h1]
      show ?thesis using body Inr Some by simp
    qed
  qed
qed

lemma names_of_kept:
  assumes "distinct (map name visits)" and "x \<in> set visits"
  shows "name x \<in> set (map name (filter kept visits)) \<longleftrightarrow> kept x"
proof
  assume "name x \<in> set (map name (filter kept visits))"
  then obtain y where y: "y \<in> set visits" "kept y" "name y = name x" by auto
  have "inj_on name (set visits)" using assms(1) by (simp add: distinct_map)
  then have "y = x" using y assms(2) by (auto dest: inj_onD)
  then show "kept x" using y by simp
next
  assume "kept x"
  then show "name x \<in> set (map name (filter kept visits))" using assms(2) by auto
qed

lemma consolidate_run_result:
  "\<forall>result h'. ConsolidateInitramfsConnectionsTask_run True (Some nm) h0 = (Inr result, h') \<longrightarrow>
      (let visits = consolidate_visits nm (get_devices nm h0) (h0 @ [Get_devices])
       in map fst visits = get_devices nm h0 \<and>
          result = map (\<lambda>(d, h). get_iface nm h d)
                     (filter (\<lambda>(d, h). consolidates nm d h) visits) \<and>
          (distinct (map (\<lambda>(d, h). get_iface nm h d) visits) \<longrightarrow>
             (\<forall>(d, h) \<in> set visits.
                get_iface nm h d \<in> set result \<longleftrightarrow> consolidates nm d h)))"
proof (intro allI impI)
  fix result h'
  assume "ConsolidateInitramfsConnectionsTask_run True (Some nm) h0 = (Inr result, h')"
  then have loop: "consolidate_devices nm (get_devices nm h0) [] (h0 @ [Get_devices]) = (Inr result, h')"
    by (simp add: ConsolidateInitramfsConnectionsTask_run_def guard_by_system_configuration_def)
  let ?visits = "consolidate_visits nm (get_devices nm h0) (h0 @ [Get_devices])"
  let ?name = "\<lambda>(d, h). get_iface nm h d"
  let ?kept = "\<lambda>(d, h). consolidates nm d h"
  note r = consolidate_devices_result[OF loop]
  have res: "result = map ?name (filter ?kept ?visits)" using r by simp
  have iff: "\<forall>(d, h) \<in> set ?visits. get_iface nm h d \<in> set result \<longleftrightarrow> consolidates nm d h"
    if "distinct (map ?name ?visits)"
  proof (intro ballI, clarify)
    fix d h assume "(d, h) \<in> set ?visits"
    from names_of_kept[OF that this, of ?kept] res
    show "get_iface nm h d \<in> set result \<longleftrightarrow> consolidates nm d h" by simp
  qed
  show "let visits = ?visits
       in map fst visits = get_devices nm h0 \<and>
          result = map ?name (filter ?kept visits) \<and>
          (distinct (map ?name visits) \<longrightarrow>
             (\<forall>(d, h) \<in> set visits.
                get_iface nm h d \<in> set result \<longleftrightarrow> consolidates nm d h))"
    unfolding Let_def using r res iff by blast
qed

text \<open>
  Claim C6, as stated, fails: a device with two available connections, neither a
  slave, without an ifcfg file, and with no connection bound to its interface
  name is not consolidated. The code has no third choice ("any connection not
  already disk-backed"): the device is skipped and its name is absent from the
  result.
\<close>

theorem consolidate_unbound_counterexample:
  "length (get_available_connections unbound_backend [Get_devices] (Device 0)) = 2 \<and>
   \<not> list_ex (\<lambda>con. truthy_opt (get_master unbound_backend [Get_devices] con))
       (get_available_connections unbound_backend [Get_devices] (Device 0)) \<and>
   get_devices unbound_backend [] = [Device 0] \<and>
   get_iface unbound_backend [Get_devices] (Device 0) = ''ens3'' \<and>
   ConsolidateInitramfsConnectionsTask_run True (Some unbound_backend) [] =
     (Inr [], [Get_devices, Get_ifcfg_file_of_device ''ens3''])"
  by (simp add: backend_defs ConsolidateInitramfsConnectionsTask_run_def
        guard_by_system_configuration_def consolidate_device_def truthy_opt_def Let_def)

text \<open>
  Claim C6, amended. With network configuration enabled and a client present,
  \<open>ConsolidateInitramfsConnectionsTask.run()\<close> is the loop over the devices of
  the client. When the loop reaches a device (with the names \<open>consolidated\<close> so
  far, the history \<open>h\<close> and the devices \<open>rest\<close> still to come): a device with
  fewer than two available connections, or with a connection that has a master,
  is skipped, before the lookup of its ifcfg file. A device with two or more
  connections, none of them a slave, and without an ifcfg file: the first
  available connection whose interface name is the device's name is selected,
  \<open>ensure_active_connection_for_device\<close> is called with its uuid and
  \<open>only_replace=True\<close>, and the device's name is appended to the names; when no
  connection is bound to the name the device is skipped. A device whose ifcfg
  file comes from kickstart is skipped. A device with an ifcfg file that does not
  come from kickstart is left out of this statement; the run may end there with
  an exception, and then no list is returned at all.

  Whenever \<open>run()\<close> returns a list, the loop has visited every device of the
  client, and the list holds exactly, in the order of the devices, the names of
  the visited devices with two or more connections, none of them a slave, no
  ifcfg file and a connection bound to the device's name. When the visited
  devices have distinct names, the name of a visited device is in the list if
  and only if the device meets these conditions: the name of every other device
  is absent from the result.
\<close>

theorem consolidate_keeps_connection_bound_to_iface:
  "ConsolidateInitramfsConnectionsTask_run True (Some nm) h0 =
     consolidate_devices nm (get_devices nm h0) [] (h0 @ [Get_devices]) \<and>
   (let cons = get_available_connections nm h device;
        iface = get_iface nm h device;
        h1 = h @ [Get_ifcfg_file_of_device iface]
    in (length cons < 2 \<or> (\<exists>con \<in> set cons. truthy_opt (get_master nm h con)) \<longrightarrow>
          consolidate_devices nm (device # rest) consolidated h =
            consolidate_devices nm rest consolidated h) \<and>
       (2 \<le> length cons \<and> (\<forall>con \<in> set cons. \<not> truthy_opt (get_master nm h con)) \<longrightarrow>
          (case get_ifcfg_file_of_device nm h iface of
             None \<Rightarrow>
               (case find (\<lambda>con. get_interface_name nm h1 con = Some iface) cons of
                  Some con \<Rightarrow>
                    consolidate_devices nm (device # rest) consolidated h =
                      consolidate_devices nm rest (consolidated @ [iface])
                        (h1 @ [Ensure_active_connection_for_device (get_uuid nm h1 con) iface True]) \<and>
                    (\<forall>result h'. consolidate_devices nm (device # rest) consolidated h = (Inr result, h')
                       \<longrightarrow> iface \<in> set result)
                | None \<Rightarrow>
                    consolidate_devices nm (device # rest) consolidated h =
                      consolidate_devices nm rest consolidated h1)
           | Some file \<Rightarrow>
               ifcfg_is_from_kickstart file \<longrightarrow>
                 consolidate_devices nm (device # rest) consolidated h =
                   consolidate_devices nm rest consolidated h1))) \<and>
   (\<forall>result h'. ConsolidateInitramfsConnectionsTask_run True (Some nm) h0 = (Inr result, h') \<longrightarrow>
      (let visits = consolidate_visits nm (get_devices nm h0) (h0 @ [Get_devices])
       in map fst visits = get_devices nm h0 \<and>
          result = map (\<lambda>(d, h). get_iface nm h d)
                     (filter (\<lambda>(d, h). consolidates nm d h) visits) \<and>
          (distinct (map (\<lambda>(d, h). get_iface nm h d) visits) \<longrightarrow>
             (\<forall>(d, h) \<in> set visits.
                get_iface nm h d \<in> set result \<longleftrightarrow> consolidates nm d h))))"
proof -
  let ?cons = "get_available_connections nm h device"
  let ?iface = "get_iface nm h device"
  let ?h1 = "h @ [Get_ifcfg_file_of_device ?iface]"
  have skip: "consolidate_devices nm (device # rest) consolidated h =
            consolidate_devices nm rest consolidated h"
    if "length ?cons < 2 \<or> (\<exists>con \<in> set ?cons. truthy_opt (get_master nm h con))"
    using that by (auto simp add: consolidate_device_def Let_def list_ex_iff)
  have sel: "consolidate_devices nm (device # rest) consolidated h =
                      consolidate_devices nm rest (consolidated @ [?iface])
                        (?h1 @ [Ensure_active_connection_for_device (get_uuid nm ?h1 con) ?iface True])"
    if "2 \<le> length ?cons" "\<forall>con \<in> set ?cons. \<not> truthy_opt (get_master nm h con)"
       "get_ifcfg_file_of_device nm h ?iface = None"
       "find (\<lambda>con. get_interface_name nm ?h1 con = Some ?iface) ?cons = Some con" for con
    using that
    by (simp add: consolidate_device_def Let_def list_ex_iff call_get_uuid_def
          select_persistent_connection_for_iface_find)
  have mem: "?iface \<in> set result"
    if "2 \<le> length ?cons" "\<forall>con \<in> set ?cons. \<not> truthy_opt (get_master nm h con)"
       "get_ifcfg_file_of_device nm h ?iface = None"
       "find (\<lambda>con. get_interface_name nm ?h1 con = Some ?iface) ?cons = Some con"
       "consolidate_devices nm (device # rest) consolidated h = (Inr result, h')"
    for con result h'
  proof -
    from sel[OF that(1-4)] that(5) obtain new where "result = (consolidated @ [?iface]) @ new"
      using consolidate_devices_extends by metis
    then show ?thesis by simp
  qed
  have none: "consolidate_devices nm (device # rest) consolidated h =
                      consolidate_devices nm rest consolidated ?h1"
    if "2 \<le> length ?cons" "\<forall>con \<in> set ?cons. \<not> truthy_opt (get_master nm h con)"
       "get_ifcfg_file_of_device nm h ?iface = None"
       "find (\<lambda>con. get_interface_name nm ?h1 con = Some ?iface) ?cons = None"
    using that
    by (simp add: consolidate_device_def Let_def list_ex_iff
          select_persistent_connection_for_iface_find)
  have ks: "consolidate_devices nm (device # rest) consolidated h =
                      consolidate_devices nm rest consolidated ?h1"
    if "2 \<le> length ?cons" "\<forall>con \<in> set ?cons. \<not> truthy_opt (get_master nm h con)"
       "get_ifcfg_file_of_device nm h ?iface = Some file" "ifcfg_is_from_kickstart file" for "file"
    using that
    by (simp add: consolidate_device_def Let_def list_ex_iff)
  have run: "ConsolidateInitramfsConnectionsTask_run True (Some nm) h0 =
     consolidate_devices nm (get_devices nm h0) [] (h0 @ [Get_devices])"
    by (simp add: ConsolidateInitramfsConnectionsTask_run_def guard_by_system_configuration_def)
  have step: "let cons = ?cons; iface = ?iface; h1 = h @ [Get_ifcfg_file_of_device iface]
    in (length cons < 2 \<or> (\<exists>con \<in> set cons. truthy_opt (get_master nm h con)) \<longrightarrow>
          consolidate_devices nm (device # rest) consolidated h =
            consolidate_devices nm rest consolidated h) \<and>
       (2 \<le> length cons \<and> (\<forall>con \<in> set cons. \<not> truthy_opt (get_master nm h con)) \<longrightarrow>
          (case get_ifcfg_file_of_device nm h iface of
             None \<Rightarrow>
               (case find (\<lambda>con. get_interface_name nm h1 con = Some iface) cons of
                  Some con \<Rightarrow>
                    consolidate_devices nm (device # rest) consolidated h =
                      consolidate_devices nm rest (consolidated @ [iface])
                        (h1 @ [Ensure_active_connection_for_device (get_uuid nm h1 con) iface True]) \<and>
                    (\<forall>result h'. consolidate_devices nm (device # rest) consolidated h = (Inr result, h')
                       \<longrightarrow> iface \<in> set result)
                | None \<Rightarrow>
                    consolidate_devices nm (device # rest) consolidated h =
                      consolidate_devices nm rest consolidated h1)
           | Some file \<Rightarrow>
               ifcfg_is_from_kickstart file \<longrightarrow>
                 consolidate_devices nm (device # rest) consolidated h =
                   consolidate_devices nm rest consolidated h1))"
    unfolding Let_def
    using skip sel mem none ks
    by (auto split: option.splits)
  show ?thesis
    by (rule conjI, rule run, rule conjI, rule step, rule consolidate_run_result)
qed

theorem consolidate_keeps_connection_bound_to_iface_witness:
  "2 \<le> length (get_available_connections bound_backend [Get_devices] (Device 0)) \<and>
   \<not> list_ex (\<lambda>con. truthy_opt (get_master bound_backend [Get_devices] con))
       (get_available_connections bound_backend [Get_devices] (Device 0)) \<and>
   get_ifcfg_file_of_device bound_backend [Get_devices] ''ens3'' = None \<and>
   ConsolidateInitramfsConnectionsTask_run True (Some bound_backend) [] =
     (Inr [''ens3''],
      [Get_devices, Get_ifcfg_file_of_device ''ens3'',
       Ensure_active_connection_for_device ''uuid-1'' ''ens3'' True]) \<and>
   list_ex (\<lambda>con. truthy_opt (get_master slave_backend [Get_devices] con))
     (get_available_connections slave_backend [Get_devices] (Device 0)) \<and>
   ConsolidateInitramfsConnectionsTask_run True (Some slave_backend) [] =
     (Inr [], [Get_devices]) \<and>
   get_ifcfg_file_of_device unbound_backend [Get_devices] ''ens3'' = None \<and>
   ConsolidateInitramfsConnectionsTask_run True (Some unbound_backend) [] =
     (Inr [], [Get_devices, Get_ifcfg_file_of_device ''ens3'']) \<and>
   get_ifcfg_file_of_device kickstart_backend [Get_devices] ''ens3'' =
     Some \<lparr>ifcfg_uuid = ''uuid-0'', ifcfg_is_from_kickstart = True\<rparr> \<and>
   ConsolidateInitramfsConnectionsTask_run True (Some kickstart_backend) [] =
     (Inr [], [Get_devices, Get_ifcfg_file_of_device ''ens3'']) \<and>
   consolidate_visits bound_backend (get_devices bound_backend []) [Get_devices] =
     [(Device 0, [Get_devices])] \<and>
   consolidates bound_backend (Device 0) [Get_devices] \<and>
   \<not> consolidates slave_backend (Device 0) [Get_devices] \<and>
   \<not> consolidates unbound_backend (Device 0) [Get_devices] \<and>
   \<not> consolidates kickstart_backend (Device 0) [Get_devices] \<and>
   ConsolidateInitramfsConnectionsTask_run True (Some (two_device_backend None)) [] =
     (Inr [''ens3''],
      [Get_devices, Get_ifcfg_file_of_device ''ens3'',
       Ensure_active_connection_for_device ''uuid-1'' ''ens3'' True,
       Get_ifcfg_file_of_device ''ens4'']) \<and>
   consolidate_visits (two_device_backend None) [Device 0, Device 1] [Get_devices] =
     [(Device 0, [Get_devices]),
      (Device 1, [Get_devices, Get_ifcfg_file_of_device ''ens3'',
                  Ensure_active_connection_for_device ''uuid-1'' ''ens3'' True])] \<and>
   consolidates (two_device_backend None) (Device 0) [Get_devices] \<and>
   \<not> consolidates (two_device_backend None) (Device 1)
       [Get_devices, Get_ifcfg_file_of_device ''ens3'',
        Ensure_active_connection_for_device ''uuid-1'' ''ens3'' True]"
  using consolidate_keeps_connection_bound_to_iface
          [where nm = "two_device_backend None" and ?h0.0 = "[]" and h = "[Get_devices]"
             and device = "Device 0" and rest = "[Device 1]" and consolidated = "[]"]
        consolidate_keeps_connection_bound_to_iface
          [where nm = bound_backend and ?h0.0 = "[]" and h = "[Get_devices]"
             and device = "Device 0" and rest = "[]" and consolidated = "[]"]
        consolidate_keeps_connection_bound_to_iface
          [where nm = slave_backend and ?h0.0 = "[]" and h = "[Get_devices]"
             and device = "Device 0" and rest = "[]" and consolidated = "[]"]
        consolidate_keeps_connection_bound_to_iface
          [where nm = unbound_backend and ?h0.0 = "[]" and h = "[Get_devices]"
             and device = "Device 0" and rest = "[]" and consolidated = "[]"]
        consolidate_keeps_connection_bound_to_iface
          [where nm = kickstart_backend and ?h0.0 = "[]" and h = "[Get_devices]"
             and device = "Device 0" and rest = "[]" and consolidated = "[]"]
  by (simp add: backend_defs two_device_backend_def ConsolidateInitramfsConnectionsTask_run_def
        guard_by_system_configuration_def consolidate_device_def consolidates_def
        truthy_opt_def call_get_uuid_def Let_def)

text \<open>
  For a device with an ifcfg file that does not come from kickstart, line 208
  binds \<open>con_for_iface\<close> to the file's uuid, a string, and line 215 calls
  \<open>get_uuid()\<close> on it: the task ends with an \<open>AttributeError\<close>, where
  \<open>ApplyKickstartTask\<close> (line 117) passes \<open>ifcfg_file.uuid\<close> itself.
\<close>

lemma consolidate_with_initramfs_ifcfg_raises:
  "ConsolidateInitramfsConnectionsTask_run True (Some initramfs_backend) [] =
     (Inl AttributeError, [Get_devices, Get_ifcfg_file_of_device ''ens3''])"
  by (simp add: backend_defs run_defs consolidate_device_def truthy_opt_def
        call_get_uuid_def Let_def)

text \<open>
  The same after a consolidated device: \<open>ens3\<close> is consolidated, then \<open>ens4\<close>
  has such an ifcfg file, and the task returns no list.
\<close>

lemma consolidate_after_kept_device_raises:
  "ConsolidateInitramfsConnectionsTask_run True
     (Some (two_device_backend (Some \<lparr>ifcfg_uuid = ''uuid-0'', ifcfg_is_from_kickstart = False\<rparr>))) [] =
     (Inl AttributeError,
      [Get_devices, Get_ifcfg_file_of_device ''ens3'',
       Ensure_active_connection_for_device ''uuid-1'' ''ens3'' True,
       Get_ifcfg_file_of_device ''ens4''])"
  by (simp add: backend_defs two_device_backend_def run_defs consolidate_device_def truthy_opt_def
        call_get_uuid_def Let_def)

subsection \<open>Real ONBOOT values\<close>

lemma update_devices_extends:
  "\<exists>new. fst (update_devices nm nd names updated h) = updated @ new"
proof (induction names arbitrary: updated h)
  case Nil
  show ?case by simp
next
  case (Cons devname rest)
  obtain ok h1 where body: "update_onboot nm nd devname h = (ok, h1)"
    by (cases "update_onboot nm nd devname h")
  obtain new where
    "fst (update_devices nm nd rest (if ok then updated @ [devname] else updated) h1) =
       (if ok then updated @ [devname] else updated) @ new"
    using Cons.IH by blast
  then show ?case using body by (cases ok) auto
qed

lemma set_real_onboot_loop_extends:
  "\<exists>new. fst (set_real_onboot_loop nm supported bootif directives updated h) = updated @ new"
proof (induction directives arbitrary: updated h)
  case Nil
  show ?case by simp
next
  case (Cons nd rest)
  let ?name = "get_device_name_from_network_data nm h nd supported bootif"
  let ?h1 = "h @ [Get_device_name_from_network_data nd supported bootif]"
  obtain u1 h2 where ud: "update_devices nm nd (devices_to_update nd ?name) updated ?h1 = (u1, h2)"
    by (cases "update_devices nm nd (devices_to_update nd ?name) updated ?h1")
  obtain sl h3 where us: "update_slaves nm nd (master_of nd ?name) h2 = (sl, h3)"
    by (cases "update_slaves nm nd (master_of nd ?name) h2")
  obtain n1 where n1: "u1 = updated @ n1"
    using update_devices_extends[of nm nd "devices_to_update nd ?name" updated ?h1] ud by auto
  obtain n2 where "fst (set_real_onboot_loop nm supported bootif rest (u1 @ sl) h3) = (u1 @ sl) @ n2"
    using Cons.IH by blast
  then show ?case using ud us n1 by (simp add: Let_def)
qed

lemma set_real_onboot_loop_append:
  "set_real_onboot_loop nm supported bootif (pre @ post) updated h =
     (let (u, h1) = set_real_onboot_loop nm supported bootif pre updated h
      in set_real_onboot_loop nm supported bootif post u h1)"
  by (induction pre arbitrary: updated h) (simp_all add: Let_def split: prod.splits)

lemma update_onboot_history:
  "\<exists>later. snd (update_onboot nm nd devname h) = h @ later"
  by (simp add: update_onboot_def Let_def)

lemma update_devices_history:
  "\<exists>later. snd (update_devices nm nd names updated h) = h @ later"
proof (induction names arbitrary: updated h)
  case Nil
  show ?case by simp
next
  case (Cons devname rest)
  obtain ok h1 where body: "update_onboot nm nd devname h = (ok, h1)"
    by (cases "update_onboot nm nd devname h")
  obtain l1 where l1: "h1 = h @ l1"
    using update_onboot_history[of nm nd devname h] body by auto
  obtain l2 where
    "snd (update_devices nm nd rest (if ok then updated @ [devname] else updated) h1) = h1 @ l2"
    using Cons.IH by blast
  then show ?case using body l1 by auto
qed

lemma update_slaves_history:
  "\<exists>later. snd (update_slaves nm nd master h) = h @ later"
  by (simp add: update_slaves_def Let_def)

lemma set_real_onboot_loop_history:
  "\<exists>later. snd (set_real_onboot_loop nm supported bootif directives updated h) = h @ later"
proof (induction directives arbitrary: updated h)
  case Nil
  show ?case by simp
next
  case (Cons nd rest)
  let ?name = "get_device_name_from_network_data nm h nd supported bootif"
  let ?h1 = "h @ [Get_device_name_from_network_data nd supported bootif]"
  obtain u1 h2 where ud: "update_devices nm nd (devices_to_update nd ?name) updated ?h1 = (u1, h2)"
    by (cases "update_devices nm nd (devices_to_update nd ?name) updated ?h1")
  obtain sl h3 where us: "update_slaves nm nd (master_of nd ?name) h2 = (sl, h3)"
    by (cases "update_slaves nm nd (master_of nd ?name) h2")
  obtain l2 where l2: "h2 = ?h1 @ l2"
    using update_devices_history[of nm nd "devices_to_update nd ?name" updated ?h1] ud by auto
  obtain l3 where l3: "h3 = h2 @ l3"
    using update_slaves_history[of nm nd "master_of nd ?name" h2] us by auto
  obtain l4 where "snd (set_real_onboot_loop nm supported bootif rest (u1 @ sl) h3) = h3 @ l4"
    using Cons.IH by blast
  then show ?case using ud us l2 l3 by (simp add: Let_def)
qed

text \<open>
  Claim C8. Let a directive set \<open>vlanid\<close> together with \<open>bondslaves\<close> or
  \<open>teamslaves\<close>, at any position of the kickstart data, and let \<open>updated\<close> and
  \<open>h\<close> be the names collected and the history when the loop of
  \<open>SetRealOnbootValuesFromKickstartTask.run()\<close> reaches it. Then two devices are
  updated, in this order: the resolved VLAN device and the device named by the
  directive's \<open>device\<close> field, the master, whose slaves are then updated too.
  The update of a device is, with \<open>onboot\<close> set: \<open>find_ifcfg_uuid_of_device\<close>
  for the device, then \<open>update_onboot_value\<close> with the uuid found (or the empty
  string) and \<open>True\<close>, and it succeeds when that call answers true. With
  \<open>onboot\<close> unset: \<open>update_iface_setting_values\<close> for the device with
  \<open>autoconnect = False\<close>; when it answers more than one connection, the same
  two calls follow with \<open>False\<close>, and the update succeeds when
  \<open>update_onboot_value\<close> answers true; otherwise the update succeeds. The calls
  of the two updates are in the history of the run, the VLAN device's first. The
  list the task returns holds, next to each other, the names of those of the two
  whose update succeeded; when both updates succeed, both names are in it.
\<close>

theorem vlan_with_slaves_updates_two_devices:
  assumes vlan: "truthy (nd_vlanid nd)"
    and slaves: "truthy (nd_bondslaves nd) \<or> truthy (nd_teamslaves nd)"
    and directives: "network_data = pre @ nd # rest"
    and reached: "set_real_onboot_loop nm supported_devices bootif pre [] h0 = (updated, h)"
  shows "(let vlan_device = get_device_name_from_network_data nm h nd supported_devices bootif;
              h1 = h @ [Get_device_name_from_network_data nd supported_devices bootif];
              master = nd_device nd;
              values = [(''connection'', ''autoconnect'', False)];
              write_ifcfg = (\<lambda>devname onboot h.
                let uuid = (case find_ifcfg_uuid_of_device nm h devname of
                              None \<Rightarrow> [] | Some u \<Rightarrow> u)
                in (update_onboot_value nm (h @ [Find_ifcfg_uuid_of_device devname]) uuid onboot,
                    h @ [Find_ifcfg_uuid_of_device devname, Update_onboot_value uuid onboot]));
              update = (\<lambda>devname h.
                if nd_onboot nd then write_ifcfg devname True h
                else if 1 < update_iface_setting_values nm h devname values
                then write_ifcfg devname False (h @ [Update_iface_setting_values devname values])
                else (True, h @ [Update_iface_setting_values devname values]));
              (first, h2) = update vlan_device h1;
              (second, h3) = update master h2;
              (updated_slaves, h4) = update_slaves nm nd master h3;
              (result, h') = SetRealOnbootValuesFromKickstartTask_run True (Some nm) network_data
                               supported_devices bootif h0
          in set_real_onboot_loop nm supported_devices bootif (nd # rest) updated h =
               set_real_onboot_loop nm supported_devices bootif rest
                 (updated @ (if first then [vlan_device] else []) @
                    (if second then [master] else []) @ updated_slaves) h4 \<and>
             (\<exists>later. h' = h3 @ later) \<and>
             (\<exists>before after.
                result = Inr (before @ (if first then [vlan_device] else []) @
                                (if second then [master] else []) @ after)) \<and>
             (first \<and> second \<longrightarrow>
                (\<exists>names. result = Inr names \<and> vlan_device \<in> set names \<and> master \<in> set names)))"
proof -
  let ?v = "get_device_name_from_network_data nm h nd supported_devices bootif"
  let ?h1 = "h @ [Get_device_name_from_network_data nd supported_devices bootif]"
  let ?autoconnect = "[(''connection'', ''autoconnect'', False)]"
  let ?ifcfg = "\<lambda>devname onboot h.
                let uuid = (case find_ifcfg_uuid_of_device nm h devname of
                              None \<Rightarrow> [] | Some u \<Rightarrow> u)
                in (update_onboot_value nm (h @ [Find_ifcfg_uuid_of_device devname]) uuid onboot,
                    h @ [Find_ifcfg_uuid_of_device devname, Update_onboot_value uuid onboot])"
  let ?update = "\<lambda>devname h.
                if nd_onboot nd then ?ifcfg devname True h
                else if 1 < update_iface_setting_values nm h devname ?autoconnect
                then ?ifcfg devname False (h @ [Update_iface_setting_values devname ?autoconnect])
                else (True, h @ [Update_iface_setting_values devname ?autoconnect])"
  have same: "update_onboot nm nd devname g = ?update devname g" for devname g
    by (simp add: update_onboot_def Let_def)
  obtain first h2 where f: "?update ?v ?h1 = (first, h2)"
    by (cases "?update ?v ?h1")
  obtain second h3 where s: "?update (nd_device nd) h2 = (second, h3)"
    by (cases "?update (nd_device nd) h2")
  obtain sl h4 where us: "update_slaves nm nd (nd_device nd) h3 = (sl, h4)"
    by (cases "update_slaves nm nd (nd_device nd) h3")
  let ?mid = "(if first then [?v] else []) @ (if second then [nd_device nd] else [])"
  let ?loop = "set_real_onboot_loop nm supported_devices bootif (nd # rest) updated h"
  have two: "devices_to_update nd ?v = [?v, nd_device nd]"
    and master: "master_of nd ?v = nd_device nd"
    using vlan slaves by (auto simp add: devices_to_update_def master_of_def)
  have f': "update_onboot nm nd ?v ?h1 = (first, h2)"
    and s': "update_onboot nm nd (nd_device nd) h2 = (second, h3)"
    using f s same by simp_all
  have ud: "update_devices nm nd [?v, nd_device nd] updated ?h1 = (updated @ ?mid, h3)"
    using f' s' by simp
  have step: "?loop =
               set_real_onboot_loop nm supported_devices bootif rest (updated @ ?mid @ sl) h4"
    using two master ud us by (simp add: Let_def)
  have run: "SetRealOnbootValuesFromKickstartTask_run True (Some nm) network_data
               supported_devices bootif h0 = (Inr (fst ?loop), snd ?loop)"
    using directives reached
    by (simp add: SetRealOnbootValuesFromKickstartTask_run_def guard_by_system_configuration_def
          set_real_onboot_loop_append split: prod.splits)
  obtain after where after:
    "fst (set_real_onboot_loop nm supported_devices bootif rest (updated @ ?mid @ sl) h4) =
       (updated @ ?mid @ sl) @ after"
    using set_real_onboot_loop_extends by blast
  have shape: "fst ?loop = updated @ ?mid @ (sl @ after)"
    using step after by simp
  have ex: "\<exists>before after'. fst ?loop = before @ ?mid @ after'"
    using shape by blast
  obtain l4 where l4: "h4 = h3 @ l4"
    using update_slaves_history[of nm nd "nd_device nd" h3] us by auto
  obtain l5 where
    "snd (set_real_onboot_loop nm supported_devices bootif rest (updated @ ?mid @ sl) h4) = h4 @ l5"
    using set_real_onboot_loop_history by blast
  then have hist: "\<exists>later. snd ?loop = h3 @ later"
    using step l4 by simp
  have both: "?v \<in> set (fst ?loop) \<and> nd_device nd \<in> set (fst ?loop)"
    if "first \<and> second"
    using that shape by simp
  have step': "?loop =
      set_real_onboot_loop nm supported_devices bootif rest
        (updated @ (if first then [?v] else []) @ (if second then [nd_device nd] else []) @ sl) h4"
    using step by simp
  have c3: "\<exists>before after.
      (Inr (fst ?loop) :: error + string list) =
        Inr (before @ (if first then [?v] else []) @ (if second then [nd_device nd] else []) @ after)"
    using shape by (metis append.assoc)
  have c4: "first \<and> second \<longrightarrow>
      (\<exists>names. (Inr (fst ?loop) :: error + string list) = Inr names \<and>
         ?v \<in> set names \<and> nd_device nd \<in> set names)"
    using both by blast
  note f'' = f[unfolded Let_def]
  note s'' = s[unfolded Let_def]
  show ?thesis
    unfolding Let_def f'' s'' us run split_conv
    using step' hist c3 c4 by blast
qed

theorem vlan_with_slaves_updates_two_devices_witness:
  "truthy (nd_vlanid bond_vlan_directive) \<and>
   truthy (nd_bondslaves bond_vlan_directive) \<and>
   set_real_onboot_loop bond_backend [] [] [] [] [] = ([], []) \<and>
   SetRealOnbootValuesFromKickstartTask_run True (Some bond_backend) [bond_vlan_directive]
       [] [] [] =
     (Inr [''bond0.222'', ''bond0'', ''ens9'', ''ens10''],
      [Get_device_name_from_network_data bond_vlan_directive [] [],
       Find_ifcfg_uuid_of_device ''bond0.222'', Update_onboot_value [] True,
       Find_ifcfg_uuid_of_device ''bond0'', Update_onboot_value [] True,
       Get_device_by_iface ''bond0'',
       Update_slaves_onboot_value ''bond0'' True None]) \<and>
   SetRealOnbootValuesFromKickstartTask_run True (Some bond_backend) [bond_vlan_directive_off]
       [] [] [] =
     (Inr [''bond0.222'', ''bond0'', ''ens9'', ''ens10''],
      [Get_device_name_from_network_data bond_vlan_directive_off [] [],
       Update_iface_setting_values ''bond0.222'' [(''connection'', ''autoconnect'', False)],
       Update_iface_setting_values ''bond0'' [(''connection'', ''autoconnect'', False)],
       Get_device_by_iface ''bond0'',
       Update_slaves_onboot_value ''bond0'' False None]) \<and>
   SetRealOnbootValuesFromKickstartTask_run True (Some crowded_backend) [bond_vlan_directive_off]
       [] [] [] =
     (Inr [''ens9'', ''ens10''],
      [Get_device_name_from_network_data bond_vlan_directive_off [] [],
       Update_iface_setting_values ''bond0.222'' [(''connection'', ''autoconnect'', False)],
       Find_ifcfg_uuid_of_device ''bond0.222'', Update_onboot_value [] False,
       Update_iface_setting_values ''bond0'' [(''connection'', ''autoconnect'', False)],
       Find_ifcfg_uuid_of_device ''bond0'', Update_onboot_value [] False,
       Get_device_by_iface ''bond0'',
       Update_slaves_onboot_value ''bond0'' False None])"
proof -
  have vlan: "truthy (nd_vlanid bond_vlan_directive)"
    "truthy (nd_vlanid bond_vlan_directive_off)"
    and slaves: "truthy (nd_bondslaves bond_vlan_directive) \<or>
                 truthy (nd_teamslaves bond_vlan_directive)"
      "truthy (nd_bondslaves bond_vlan_directive_off) \<or>
       truthy (nd_teamslaves bond_vlan_directive_off)"
    by (simp_all add: truthy_def backend_defs bond_vlan_directive_off_def)
  have directives: "[bond_vlan_directive] = [] @ bond_vlan_directive # []"
    "[bond_vlan_directive_off] = [] @ bond_vlan_directive_off # []"
    by simp_all
  have reached: "set_real_onboot_loop bond_backend [] [] [] [] [] = ([], [])"
    "set_real_onboot_loop crowded_backend [] [] [] [] [] = ([], [])"
    by simp_all
  have run_on: "SetRealOnbootValuesFromKickstartTask_run True (Some bond_backend)
       [bond_vlan_directive] [] [] [] =
     (Inr [''bond0.222'', ''bond0'', ''ens9'', ''ens10''],
      [Get_device_name_from_network_data bond_vlan_directive [] [],
       Find_ifcfg_uuid_of_device ''bond0.222'', Update_onboot_value [] True,
       Find_ifcfg_uuid_of_device ''bond0'', Update_onboot_value [] True,
       Get_device_by_iface ''bond0'',
       Update_slaves_onboot_value ''bond0'' True None])"
    by (simp add: run_defs update_onboot_def update_slaves_def devices_to_update_def
          master_of_def Let_def truthy_def backend_defs)
  have run_off: "SetRealOnbootValuesFromKickstartTask_run True (Some bond_backend)
       [bond_vlan_directive_off] [] [] [] =
     (Inr [''bond0.222'', ''bond0'', ''ens9'', ''ens10''],
      [Get_device_name_from_network_data bond_vlan_directive_off [] [],
       Update_iface_setting_values ''bond0.222'' [(''connection'', ''autoconnect'', False)],
       Update_iface_setting_values ''bond0'' [(''connection'', ''autoconnect'', False)],
       Get_device_by_iface ''bond0'',
       Update_slaves_onboot_value ''bond0'' False None])"
    by (simp add: run_defs update_onboot_def update_slaves_def devices_to_update_def
          master_of_def Let_def truthy_def backend_defs bond_vlan_directive_off_def)
  have run_crowded: "SetRealOnbootValuesFromKickstartTask_run True (Some crowded_backend)
       [bond_vlan_directive_off] [] [] [] =
     (Inr [''ens9'', ''ens10''],
      [Get_device_name_from_network_data bond_vlan_directive_off [] [],
       Update_iface_setting_values ''bond0.222'' [(''connection'', ''autoconnect'', False)],
       Find_ifcfg_uuid_of_device ''bond0.222'', Update_onboot_value [] False,
       Update_iface_setting_values ''bond0'' [(''connection'', ''autoconnect'', False)],
       Find_ifcfg_uuid_of_device ''bond0'', Update_onboot_value [] False,
       Get_device_by_iface ''bond0'',
       Update_slaves_onboot_value ''bond0'' False None])"
    by (simp add: run_defs update_onboot_def update_slaves_def devices_to_update_def
          master_of_def Let_def truthy_def backend_defs bond_vlan_directive_off_def
          crowded_backend_def)
  note on = vlan_with_slaves_updates_two_devices
              [OF vlan(1) slaves(1) directives(1) reached(1)]
  note off = vlan_with_slaves_updates_two_devices
              [OF vlan(2) slaves(2) directives(2) reached(1)]
  note crowded = vlan_with_slaves_updates_two_devices
              [OF vlan(2) slaves(2) directives(2) reached(2)]
  have "truthy (nd_bondslaves bond_vlan_directive)"
    by (simp add: truthy_def backend_defs)
  then show ?thesis
    using on off crowded vlan(1) reached(1) run_on run_off run_crowded by simp
qed

subsection \<open>Dumping of missing ifcfg files\<close>

text \<open>
  Claim C7 fails on the code. On a machine whose only device, \<open>ens3\<close>, is a
  supported wired device without an ifcfg file and with two available connections,
  one of them a slave of \<open>bond0\<close>, \<open>DumpMissingIfcfgFilesTask.run()\<close> returns
  \<open>ens3\<close> although it made no call that creates or commits a connection: the
  history holds the two queries only. With a single slave connection the device is
  skipped (lines 425-428); with several, line 435 skips the dump but control
  still reaches the \<open>append\<close> of line 448.
\<close>

theorem dump_missing_returns_slave_device_without_dump:
  "get_device_type slave_backend [Get_devices] (Device 0) \<in> set [1] \<and>
   get_ifcfg_file_of_device slave_backend [Get_devices] ''ens3'' = None \<and>
   get_available_connections slave_backend
     [Get_devices, Get_ifcfg_file_of_device ''ens3''] (Device 0) =
     [Connection 0, Connection 1] \<and>
   get_master slave_backend [Get_devices, Get_ifcfg_file_of_device ''ens3''] (Connection 0) =
     Some ''bond0'' \<and>
   DumpMissingIfcfgFilesTask_run True (Some slave_backend) [1] default_configuration [] [] =
     (Inr [''ens3''], [Get_devices, Get_ifcfg_file_of_device ''ens3''])"
  by (simp add: backend_defs run_defs dump_device_def truthy_opt_def Let_def)

end
